theory Spec2Isabelle
  imports Main "HOL-Library.Sublist" "HOL-Library.Multiset"
begin

section \<open>Go values used by the synchronisation engine\<close>

text \<open>
  Go strings are byte sequences, so a Go \<^verbatim>\<open>string\<close> is a \<^typ>\<open>string\<close> here
  (a list of 8-bit characters, UTF-8 encoded where the source holds non-ASCII text).
  A Go \<^verbatim>\<open>error\<close> is a \<^typ>\<open>string option\<close>: \<^term>\<open>None\<close> is \<^verbatim>\<open>nil\<close>,
  \<^term>\<open>Some m\<close> is an error whose \<^verbatim>\<open>Error()\<close> text is \<open>m\<close>.
  A call that may panic returns a \<open>go\<close> value.
\<close>

datatype 'a go = Ret 'a | Panic string

definition LF :: char where
  "LF = CHR 0x0A"

definition TAB :: char where
  "TAB = CHR 0x09"

subsection \<open>Package strings\<close>

text \<open>
  \<^verbatim>\<open>unicode.IsSpace\<close>: the ASCII white space and the UTF-8 encodings of U+0085, U+00A0,
  U+1680, U+2000..U+200A, U+2028, U+2029, U+202F, U+205F and U+3000.
  \<open>space_width s\<close> is the number of bytes of the white-space rune \<open>s\<close> starts with,
  0 when it starts with none.
\<close>

definition ascii_space :: "char \<Rightarrow> bool" where
  "ascii_space c = (c = CHR '' '' \<or> c = CHR 0x09 \<or> c = CHR 0x0A \<or> c = CHR 0x0B
                    \<or> c = CHR 0x0C \<or> c = CHR 0x0D)"

fun space_width :: "string \<Rightarrow> nat" where
  "space_width [] = 0"
| "space_width [a] = (if ascii_space a then 1 else 0)"
| "space_width [a, b] =
     (if ascii_space a then 1
      else if a = CHR 0xC2 \<and> (b = CHR 0x85 \<or> b = CHR 0xA0) then 2 else 0)"
| "space_width (a # b # c # _) =
     (if ascii_space a then 1
      else if a = CHR 0xC2 \<and> (b = CHR 0x85 \<or> b = CHR 0xA0) then 2
      else if a = CHR 0xE1 \<and> b = CHR 0x9A \<and> c = CHR 0x80 then 3
      else if a = CHR 0xE2 \<and> b = CHR 0x80
                \<and> (of_char c \<in> {0x80 .. (0x8A::nat)} \<or> c = CHR 0xA8 \<or> c = CHR 0xA9 \<or> c = CHR 0xAF)
           then 3
      else if a = CHR 0xE2 \<and> b = CHR 0x81 \<and> c = CHR 0x9F then 3
      else if a = CHR 0xE3 \<and> b = CHR 0x80 \<and> c = CHR 0x80 then 3
      else 0)"

text \<open>The same test at the end of a string, on the reversed bytes.\<close>

fun space_width_rev :: "string \<Rightarrow> nat" where
  "space_width_rev [] = 0"
| "space_width_rev [a] = space_width [a]"
| "space_width_rev [b, a] = (if ascii_space b then 1 else space_width [a, b])"
| "space_width_rev (c # b # a # _) =
     (if ascii_space c then 1
      else if space_width [b, c] = 2 then 2
      else if space_width [a, b, c] = 3 then 3 else 0)"

fun trim_left :: "nat \<Rightarrow> string \<Rightarrow> string" where
  "trim_left 0 s = s"
| "trim_left (Suc n) s = (if space_width s = 0 then s else trim_left n (drop (space_width s) s))"

fun trim_right_rev :: "nat \<Rightarrow> string \<Rightarrow> string" where
  "trim_right_rev 0 r = r"
| "trim_right_rev (Suc n) r =
     (if space_width_rev r = 0 then r else trim_right_rev n (drop (space_width_rev r) r))"

definition strings_TrimSpace :: "string \<Rightarrow> string" where
  "strings_TrimSpace s =
     (let l = trim_left (length s) s in rev (trim_right_rev (length l) (rev l)))"

text \<open>\<^verbatim>\<open>strings.Split(s, sep)\<close> for a one-byte separator: always at least one piece.\<close>

fun strings_Split :: "string \<Rightarrow> char \<Rightarrow> string list" where
  "strings_Split [] sep = [[]]"
| "strings_Split (c # cs) sep =
     (if c = sep then [] # strings_Split cs sep
      else (case strings_Split cs sep of
              [] \<Rightarrow> [[c]]
            | p # ps \<Rightarrow> (c # p) # ps))"

text \<open>\<^verbatim>\<open>strings.SplitN(s, sep, 2)\<close> for a one-byte separator: cut at the first one.\<close>

definition strings_SplitN2 :: "string \<Rightarrow> char \<Rightarrow> string list" where
  "strings_SplitN2 s sep =
     (if sep \<in> set s
      then [takeWhile (\<lambda>c. c \<noteq> sep) s, tl (dropWhile (\<lambda>c. c \<noteq> sep) s)]
      else [s])"

text \<open>\<^verbatim>\<open>strings.Fields\<close>: the maximal runs of bytes between white-space runes.\<close>

fun fields_from :: "nat \<Rightarrow> string \<Rightarrow> string \<Rightarrow> string list" where
  "fields_from 0 cur s = (if cur = [] then [] else [rev cur])"
| "fields_from (Suc n) cur s =
     (case s of
        [] \<Rightarrow> (if cur = [] then [] else [rev cur])
      | c # cs \<Rightarrow>
          (if space_width s = 0 then fields_from n (c # cur) cs
           else (if cur = [] then [] else [rev cur]) @ fields_from n [] (drop (space_width s) s)))"

definition strings_Fields :: "string \<Rightarrow> string list" where
  "strings_Fields s = fields_from (length s) [] s"

definition strings_TrimPrefix :: "string \<Rightarrow> string \<Rightarrow> string" where
  "strings_TrimPrefix s p = (if prefix p s then drop (length p) s else s)"

fun strings_Join :: "string list \<Rightarrow> string \<Rightarrow> string" where
  "strings_Join [] sep = []"
| "strings_Join [x] sep = x"
| "strings_Join (x # y # ys) sep = x @ sep @ strings_Join (y # ys) sep"

subsection \<open>Package fmt and strconv\<close>

function digits_of :: "nat \<Rightarrow> string" where
  "digits_of n =
     (if n < 10 then [char_of (48 + n)]
      else digits_of (n div 10) @ [char_of (48 + n mod 10)])"
  by pat_completeness auto
termination
  by (relation "measure id") auto

declare digits_of.simps [simp del]

text \<open>The verb \<^verbatim>\<open>%d\<close> of an int.\<close>

definition fmt_d :: "int \<Rightarrow> string" where
  "fmt_d i = (if i < 0 then CHR ''-'' # digits_of (nat (- i)) else digits_of (nat i))"

text \<open>The verb \<^verbatim>\<open>%v\<close> of a \<^verbatim>\<open>[]string\<close>: the elements between brackets, one space apart.\<close>

definition fmt_v_list :: "string list \<Rightarrow> string" where
  "fmt_v_list xs = ''['' @ strings_Join xs '' '' @ '']''"

text \<open>The verb \<^verbatim>\<open>%v\<close> of an error is its text.\<close>

definition is_digit :: "char \<Rightarrow> bool" where
  "is_digit c = (48 \<le> (of_char c :: nat) \<and> (of_char c :: nat) \<le> 57)"

definition digit_val :: "char \<Rightarrow> nat" where
  "digit_val c = of_char c - 48"

fun decimal :: "nat \<Rightarrow> string \<Rightarrow> nat" where
  "decimal acc [] = acc"
| "decimal acc (c # cs) = decimal (acc * 10 + digit_val c) cs"

text \<open>
  \<^verbatim>\<open>strconv.Atoi\<close> on a 64-bit platform: the value and whether it parsed. A syntax error
  gives 0; a value out of range gives the nearest bound (and an error).
\<close>

definition strconv_Atoi :: "string \<Rightarrow> int \<times> bool" where
  "strconv_Atoi s =
     (let neg = (s \<noteq> [] \<and> hd s = CHR ''-'');
          ds = (if s \<noteq> [] \<and> (hd s = CHR ''-'' \<or> hd s = CHR ''+'') then tl s else s)
      in if ds = [] \<or> \<not> list_all is_digit ds then (0, False)
         else (let n = int (decimal 0 ds) in
               if neg then (if n > 2 ^ 63 then (- (2 ^ 63), False) else (- n, True))
               else (if n > 2 ^ 63 - 1 then (2 ^ 63 - 1, False) else (n, True))))"


section \<open>The Git operation executor (package gitexec)\<close>

text \<open>
  Every subprocess the executor starts is a \<open>command\<close>. \<open>GitCmd dir args\<close> is
  \<^verbatim>\<open>exec.CommandContext(ctx, "git", args...)\<close> with \<^verbatim>\<open>cmd.Dir = dir\<close>;
  \<open>ShInProgress dir\<close> is the \<^verbatim>\<open>sh -c\<close> script of \<^verbatim>\<open>isInProgress\<close>
  (\<^verbatim>\<open>cd dir && (test -d .git/rebase-apply || test -d .git/rebase-merge || test -f .git/MERGE_HEAD)\<close>)
  and \<open>ShRepoSize dir\<close> the one of \<^verbatim>\<open>getRepoSize\<close>
  (\<^verbatim>\<open>cd dir && du -sh .git 2>/dev/null | cut -f1\<close>).

  The machine outside the program is a parameter: \<open>exec\<close> runs a command in a world
  and gives the new world, the standard output and the error of \<^verbatim>\<open>cmd.Run\<close> /
  \<^verbatim>\<open>cmd.Output\<close>; \<open>clock\<close> is \<^verbatim>\<open>time.Now().Format(layout)\<close>;
  \<open>confirm\<close> is the operator's answer to \<^verbatim>\<open>ui.Confirm\<close>; \<open>commit_message\<close>
  is the generation collaborator's \<^verbatim>\<open>CommitMessage\<close>.
  The program's own state is the world, the list of commands it has executed and the
  lines it has printed with \<^verbatim>\<open>fmt.Printf\<close>.
\<close>

datatype command =
    GitCmd string "string list"
  | ShInProgress string
  | ShRepoSize string

record CommitMsgInput =
  Repo_in :: string
  Branch_in :: string
  Host_in :: string
  NameStatus_in :: string
  DiffStat_in :: string
  Untracked_in :: "string list"
  PriorSubjects_in :: "string list"

record 'w sys =
  exec :: "'w \<Rightarrow> command \<Rightarrow> 'w \<times> string \<times> string option"
  clock :: "'w \<Rightarrow> string \<Rightarrow> string"
  confirm :: "'w \<Rightarrow> string \<Rightarrow> bool"
  commit_message :: "'w \<Rightarrow> CommitMsgInput \<Rightarrow> string \<times> string option"

record 'w st =
  world :: 'w
  trace :: "command list"
  stdout :: "string list"

definition run :: "'w sys \<Rightarrow> command \<Rightarrow> 'w st \<Rightarrow> (string \<times> string option) \<times> 'w st" where
  "run X c s =
     (case exec X (world s) c of
        (w', out, err) \<Rightarrow> ((out, err), s\<lparr>world := w', trace := trace s @ [c]\<rparr>))"

definition printf :: "string \<Rightarrow> 'w st \<Rightarrow> 'w st" where
  "printf line s = s\<lparr>stdout := stdout s @ [line]\<rparr>"

text \<open>
  The operation context: what \<^verbatim>\<open>ctx.Value(DryRunKey)\<close> holds. The commands store
  \<^verbatim>\<open>true\<close> there under \<^verbatim>\<open>--dry-run\<close> and nothing otherwise.
\<close>

datatype ctxval = BoolVal bool | OtherVal

type_synonym go_context = "ctxval option"

fun IsDryRun :: "go_context \<Rightarrow> bool" where
  "IsDryRun (Some (BoolVal dryRun)) = dryRun"
| "IsDryRun _ = False"

definition runGit :: "'w sys \<Rightarrow> go_context \<Rightarrow> string \<Rightarrow> string list \<Rightarrow> 'w st \<Rightarrow> string option \<times> 'w st" where
  "runGit X ctx repoPath args s =
     (case run X (GitCmd repoPath args) s of ((out, err), s') \<Rightarrow> (err, s'))"

definition runGitOutput ::
  "'w sys \<Rightarrow> go_context \<Rightarrow> string \<Rightarrow> string list \<Rightarrow> 'w st \<Rightarrow> (string \<times> string option) \<times> 'w st" where
  "runGitOutput X ctx repoPath args s =
     (case run X (GitCmd repoPath args) s of
        ((out, err), s') \<Rightarrow> ((strings_TrimSpace out, err), s'))"

subsection \<open>The mutating verbs\<close>

definition Fetch :: "'w sys \<Rightarrow> go_context \<Rightarrow> string \<Rightarrow> 'w st \<Rightarrow> string option \<times> 'w st" where
  "Fetch X ctx repoPath s =
     (if IsDryRun ctx
      then (None, printf (''[DRY RUN] Would fetch: git fetch --prune --quiet (in '' @ repoPath @ '')'' @ [LF]) s)
      else runGit X ctx repoPath [''fetch'', ''--prune'', ''--quiet''] s)"

definition AddAll :: "'w sys \<Rightarrow> go_context \<Rightarrow> string \<Rightarrow> 'w st \<Rightarrow> string option \<times> 'w st" where
  "AddAll X ctx repoPath s =
     (if IsDryRun ctx
      then (None, printf (''[DRY RUN] Would add all: git add -A (in '' @ repoPath @ '')'' @ [LF]) s)
      else runGit X ctx repoPath [''add'', ''-A''] s)"

definition CommitAllowEmpty ::
  "'w sys \<Rightarrow> go_context \<Rightarrow> string \<Rightarrow> string \<Rightarrow> 'w st \<Rightarrow> string option \<times> 'w st" where
  "CommitAllowEmpty X ctx repoPath message s =
     (if IsDryRun ctx
      then (None, printf (''[DRY RUN] Would commit: git commit --allow-empty -m '' @ [CHR 0x22] @ message
                          @ [CHR 0x22] @ '' (in '' @ repoPath @ '')'' @ [LF]) s)
      else runGit X ctx repoPath [''commit'', ''--allow-empty'', ''-m'', message] s)"

definition SwitchCreate ::
  "'w sys \<Rightarrow> go_context \<Rightarrow> string \<Rightarrow> string \<Rightarrow> 'w st \<Rightarrow> string option \<times> 'w st" where
  "SwitchCreate X ctx repoPath branch s =
     (if IsDryRun ctx
      then (None, printf (''[DRY RUN] Would create/switch branch: git switch -C '' @ branch
                          @ '' (in '' @ repoPath @ '')'' @ [LF]) s)
      else runGit X ctx repoPath [''switch'', ''-C'', branch] s)"

definition Switch ::
  "'w sys \<Rightarrow> go_context \<Rightarrow> string \<Rightarrow> string \<Rightarrow> 'w st \<Rightarrow> string option \<times> 'w st" where
  "Switch X ctx repoPath branch s =
     (if IsDryRun ctx
      then (None, printf (''[DRY RUN] Would switch branch: git switch '' @ branch
                          @ '' (in '' @ repoPath @ '')'' @ [LF]) s)
      else runGit X ctx repoPath [''switch'', branch] s)"

definition PushUpstream ::
  "'w sys \<Rightarrow> go_context \<Rightarrow> string \<Rightarrow> string \<Rightarrow> 'w st \<Rightarrow> string option \<times> 'w st" where
  "PushUpstream X ctx repoPath branch s =
     (if IsDryRun ctx
      then (None, printf (''[DRY RUN] Would push with upstream: git push -u origin '' @ branch
                          @ '' (in '' @ repoPath @ '')'' @ [LF]) s)
      else runGit X ctx repoPath [''push'', ''-u'', ''origin'', branch] s)"

definition Push ::
  "'w sys \<Rightarrow> go_context \<Rightarrow> string \<Rightarrow> string \<Rightarrow> 'w st \<Rightarrow> string option \<times> 'w st" where
  "Push X ctx repoPath branch s =
     (if IsDryRun ctx
      then (None, printf (''[DRY RUN] Would push: git push origin '' @ branch
                          @ '' (in '' @ repoPath @ '')'' @ [LF]) s)
      else runGit X ctx repoPath [''push'', ''origin'', branch] s)"

definition Stash ::
  "'w sys \<Rightarrow> go_context \<Rightarrow> string \<Rightarrow> string \<Rightarrow> 'w st \<Rightarrow> string option \<times> 'w st" where
  "Stash X ctx repoPath message s =
     (if IsDryRun ctx
      then (None, printf (''[DRY RUN] Would stash: git stash push -u -m '' @ [CHR 0x22] @ message
                          @ [CHR 0x22] @ '' (in '' @ repoPath @ '')'' @ [LF]) s)
      else runGit X ctx repoPath [''stash'', ''push'', ''-u'', ''-m'', message] s)"

definition StashPop :: "'w sys \<Rightarrow> go_context \<Rightarrow> string \<Rightarrow> 'w st \<Rightarrow> string option \<times> 'w st" where
  "StashPop X ctx repoPath s =
     (if IsDryRun ctx
      then (None, printf (''[DRY RUN] Would pop stash: git stash pop (in '' @ repoPath @ '')'' @ [LF]) s)
      else runGit X ctx repoPath [''stash'', ''pop''] s)"

subsection \<open>The read-only verbs\<close>

definition RemoteHasBranch ::
  "'w sys \<Rightarrow> go_context \<Rightarrow> string \<Rightarrow> string \<Rightarrow> 'w st \<Rightarrow> (bool \<times> string option) \<times> 'w st" where
  "RemoteHasBranch X ctx repoPath branch s =
     (case runGitOutput X ctx repoPath [''ls-remote'', ''--heads'', ''origin'', branch] s of
        ((out, err), s') \<Rightarrow>
          (case err of
             Some e \<Rightarrow> ((False, Some e), s')
           | None \<Rightarrow> ((strings_TrimSpace out \<noteq> [], None), s')))"

definition HasConflicts ::
  "'w sys \<Rightarrow> go_context \<Rightarrow> string \<Rightarrow> 'w st \<Rightarrow> (bool \<times> string list \<times> string option) \<times> 'w st" where
  "HasConflicts X ctx repoPath s =
     (case runGitOutput X ctx repoPath [''diff'', ''--name-only'', ''--diff-filter=U''] s of
        ((out, err), s') \<Rightarrow>
          (case err of
             Some e \<Rightarrow> ((False, [], Some e), s')
           | None \<Rightarrow>
               (let conflicted = strings_Fields (strings_TrimSpace out)
                in ((length conflicted > 0, conflicted, None), s'))))"

definition TrimOrigin :: "string \<Rightarrow> string" where
  "TrimOrigin remoteRef = strings_TrimPrefix remoteRef ''refs/remotes/origin/''"

definition DiffNameStatusCached ::
  "'w sys \<Rightarrow> go_context \<Rightarrow> string \<Rightarrow> 'w st \<Rightarrow> (string \<times> string option) \<times> 'w st" where
  "DiffNameStatusCached X ctx repoPath s =
     runGitOutput X ctx repoPath [''diff'', ''--cached'', ''--name-status''] s"

definition DiffStatCached ::
  "'w sys \<Rightarrow> go_context \<Rightarrow> string \<Rightarrow> 'w st \<Rightarrow> (string \<times> string option) \<times> 'w st" where
  "DiffStatCached X ctx repoPath s =
     runGitOutput X ctx repoPath [''diff'', ''--cached'', ''--stat''] s"

definition LogNSubjects ::
  "'w sys \<Rightarrow> go_context \<Rightarrow> string \<Rightarrow> int \<Rightarrow> 'w st \<Rightarrow> (string list \<times> string option) \<times> 'w st" where
  "LogNSubjects X ctx repoPath n s =
     (case runGitOutput X ctx repoPath [''log'', ''-n'' @ fmt_d n, ''--pretty=format:%s''] s of
        ((out, err), s') \<Rightarrow>
          (case err of
             Some e \<Rightarrow> (([], Some e), s')
           | None \<Rightarrow>
               ((filter (\<lambda>line. line \<noteq> []) (strings_Split (strings_TrimSpace out) LF), None), s')))"

definition getCurrentBranch ::
  "'w sys \<Rightarrow> go_context \<Rightarrow> string \<Rightarrow> 'w st \<Rightarrow> (string \<times> string option) \<times> 'w st" where
  "getCurrentBranch X ctx repoPath s =
     runGitOutput X ctx repoPath [''rev-parse'', ''--abbrev-ref'', ''HEAD''] s"

definition hasOrigin ::
  "'w sys \<Rightarrow> go_context \<Rightarrow> string \<Rightarrow> 'w st \<Rightarrow> (bool \<times> string option) \<times> 'w st" where
  "hasOrigin X ctx repoPath s =
     (case runGit X ctx repoPath [''remote'', ''get-url'', ''origin''] s of
        (err, s') \<Rightarrow> ((err = None, None), s'))"

definition isInProgress ::
  "'w sys \<Rightarrow> go_context \<Rightarrow> string \<Rightarrow> 'w st \<Rightarrow> (bool \<times> string option) \<times> 'w st" where
  "isInProgress X ctx repoPath s =
     (case run X (ShInProgress repoPath) s of
        ((out, err), s') \<Rightarrow> ((err = None, None), s'))"

definition getDirtyCount ::
  "'w sys \<Rightarrow> go_context \<Rightarrow> string \<Rightarrow> 'w st \<Rightarrow> (int \<times> string option) \<times> 'w st" where
  "getDirtyCount X ctx repoPath s =
     (case runGitOutput X ctx repoPath [''status'', ''--porcelain''] s of
        ((out, err), s') \<Rightarrow>
          (case err of
             Some e \<Rightarrow> ((0, Some e), s')
           | None \<Rightarrow> ((int (length (strings_Split (strings_TrimSpace out) LF)), None), s')))"

definition getUntrackedFiles ::
  "'w sys \<Rightarrow> go_context \<Rightarrow> string \<Rightarrow> 'w st \<Rightarrow> (string list \<times> string option) \<times> 'w st" where
  "getUntrackedFiles X ctx repoPath s =
     (case runGitOutput X ctx repoPath [''ls-files'', ''--others'', ''--exclude-standard''] s of
        ((out, err), s') \<Rightarrow>
          (case err of
             Some e \<Rightarrow> (([], Some e), s')
           | None \<Rightarrow>
               (if strings_TrimSpace out = [] then (([], None), s')
                else ((strings_Split (strings_TrimSpace out) LF, None), s'))))"

definition ListUntracked ::
  "'w sys \<Rightarrow> go_context \<Rightarrow> string \<Rightarrow> 'w st \<Rightarrow> (string list \<times> string option) \<times> 'w st" where
  "ListUntracked X ctx repoPath s = getUntrackedFiles X ctx repoPath s"

definition getAheadBehind ::
  "'w sys \<Rightarrow> go_context \<Rightarrow> string \<Rightarrow> 'w st \<Rightarrow> (int \<times> int \<times> string option) \<times> 'w st" where
  "getAheadBehind X ctx repoPath s =
     (case runGitOutput X ctx repoPath [''rev-list'', ''--left-right'', ''--count'', CHR ''@'' # ''{u}...HEAD''] s of
        ((out, err), s') \<Rightarrow>
          (case err of
             Some e \<Rightarrow> ((0, 0, None), s')
           | None \<Rightarrow>
               (case strings_Fields (strings_TrimSpace out) of
                  [p0, p1] \<Rightarrow> ((fst (strconv_Atoi p1), fst (strconv_Atoi p0), None), s')
                | _ \<Rightarrow> ((0, 0, None), s'))))"


subsection \<open>Statistics and the status snapshot\<close>

fun sum_numstat :: "string list \<Rightarrow> int \<times> int" where
  "sum_numstat [] = (0, 0)"
| "sum_numstat (line # rest) =
     (case sum_numstat rest of
        (a, r) \<Rightarrow>
          (case strings_Fields line of
             p0 # p1 # _ \<Rightarrow>
               ((if p0 \<noteq> ''-'' \<and> snd (strconv_Atoi p0) then fst (strconv_Atoi p0) else 0) + a,
                (if p1 \<noteq> ''-'' \<and> snd (strconv_Atoi p1) then fst (strconv_Atoi p1) else 0) + r)
           | _ \<Rightarrow> (a, r)))"

definition getDiffStats ::
  "'w sys \<Rightarrow> go_context \<Rightarrow> string \<Rightarrow> 'w st \<Rightarrow> (int \<times> int \<times> int \<times> string option) \<times> 'w st" where
  "getDiffStats X ctx repoPath s =
     (case runGitOutput X ctx repoPath [''diff'', ''--numstat'', ''HEAD''] s of
        ((out, err), s') \<Rightarrow>
          (case err of
             Some e \<Rightarrow> ((0, 0, 0, Some e), s')
           | None \<Rightarrow>
               (if strings_TrimSpace out = [] then ((0, 0, 0, None), s')
                else (let lines = strings_Split (strings_TrimSpace out) LF
                      in ((fst (sum_numstat lines), snd (sum_numstat lines), int (length lines), None), s')))))"

definition getCommitCount ::
  "'w sys \<Rightarrow> go_context \<Rightarrow> string \<Rightarrow> 'w st \<Rightarrow> (int \<times> string option) \<times> 'w st" where
  "getCommitCount X ctx repoPath s =
     (case runGitOutput X ctx repoPath [''rev-list'', ''--count'', ''HEAD''] s of
        ((out, err), s') \<Rightarrow>
          (case err of
             Some e \<Rightarrow> ((0, Some e), s')
           | None \<Rightarrow>
               ((fst (strconv_Atoi out),
                 if snd (strconv_Atoi out) then None else Some ''strconv.Atoi: parsing error''), s')))"

definition getLastCommitSubject ::
  "'w sys \<Rightarrow> go_context \<Rightarrow> string \<Rightarrow> 'w st \<Rightarrow> (string \<times> string option) \<times> 'w st" where
  "getLastCommitSubject X ctx repoPath s =
     (case runGitOutput X ctx repoPath [''log'', ''-1'', ''--pretty=format:%s''] s of
        ((out, err), s') \<Rightarrow>
          (case err of
             Some e \<Rightarrow> (([], Some e), s')
           | None \<Rightarrow>
               (if length out > 50 then ((take 47 out @ ''...'', None), s')
                else ((out, None), s'))))"

definition getRepoSize ::
  "'w sys \<Rightarrow> go_context \<Rightarrow> string \<Rightarrow> 'w st \<Rightarrow> (string \<times> string option) \<times> 'w st" where
  "getRepoSize X ctx repoPath s =
     (case run X (ShRepoSize repoPath) s of
        ((out, err), s') \<Rightarrow>
          (case err of
             Some e \<Rightarrow> ((''?'', None), s')
           | None \<Rightarrow>
               (if strings_TrimSpace out = [] then ((''?'', None), s')
                else ((strings_TrimSpace out, None), s'))))"

definition GetLastCommitHash ::
  "'w sys \<Rightarrow> go_context \<Rightarrow> string \<Rightarrow> 'w st \<Rightarrow> (string \<times> string option) \<times> 'w st" where
  "GetLastCommitHash X ctx repoPath s =
     (case runGitOutput X ctx repoPath [''rev-parse'', ''HEAD''] s of
        ((output, err), s') \<Rightarrow>
          (case err of
             Some e \<Rightarrow> (([], Some e), s')
           | None \<Rightarrow> ((strings_TrimSpace output, None), s')))"

record RepoStatus =
  StatusPath :: string
  Branch :: string
  Dirty :: int
  Untracked :: int
  Ahead :: int
  Behind :: int
  HasOrigin :: bool
  InProgress :: bool
  Error :: string
  LinesAdded :: int
  LinesRemoved :: int
  FilesChanged :: int
  Commits :: int
  LastCommit :: string
  RepoSize :: string

definition new_status :: "string \<Rightarrow> RepoStatus" where
  "new_status repoPath =
     \<lparr>StatusPath = repoPath, Branch = [], Dirty = 0, Untracked = 0, Ahead = 0, Behind = 0,
      HasOrigin = False, InProgress = False, Error = [], LinesAdded = 0, LinesRemoved = 0,
      FilesChanged = 0, Commits = 0, LastCommit = [], RepoSize = []\<rparr>"

text \<open>The second half of \<^verbatim>\<open>Status\<close>: the best-effort statistics, whose errors are dropped.\<close>

definition collect_stats ::
  "'w sys \<Rightarrow> go_context \<Rightarrow> string \<Rightarrow> RepoStatus \<Rightarrow> 'w st \<Rightarrow> RepoStatus \<times> 'w st" where
  "collect_stats X ctx repoPath status s =
     (case getDiffStats X ctx repoPath s of
        ((linesAdded, linesRemoved, filesChanged, err1), s1) \<Rightarrow>
     (let status1 = (if err1 = None
                     then status\<lparr>LinesAdded := linesAdded, LinesRemoved := linesRemoved,
                                 FilesChanged := filesChanged\<rparr>
                     else status)
      in case getCommitCount X ctx repoPath s1 of
        ((commits, err2), s2) \<Rightarrow>
     (let status2 = (if err2 = None then status1\<lparr>Commits := commits\<rparr> else status1)
      in case getLastCommitSubject X ctx repoPath s2 of
        ((lastCommit, err3), s3) \<Rightarrow>
     (let status3 = (if err3 = None then status2\<lparr>LastCommit := lastCommit\<rparr> else status2)
      in case getRepoSize X ctx repoPath s3 of
        ((repoSize, err4), s4) \<Rightarrow>
          ((if err4 = None then status3\<lparr>RepoSize := repoSize\<rparr> else status3), s4)))))"

definition Status ::
  "'w sys \<Rightarrow> go_context \<Rightarrow> string \<Rightarrow> 'w st \<Rightarrow> (RepoStatus \<times> string option) \<times> 'w st" where
  "Status X ctx repoPath s =
     (let status = new_status repoPath in
      case getCurrentBranch X ctx repoPath s of ((branch, err), s1) \<Rightarrow>
      (case err of
         Some e \<Rightarrow> ((status\<lparr>Error := ''get branch: '' @ e\<rparr>, None), s1)
       | None \<Rightarrow>
      (let status = status\<lparr>Branch := branch\<rparr> in
       case hasOrigin X ctx repoPath s1 of ((has, err), s2) \<Rightarrow>
      (case err of
         Some e \<Rightarrow> ((status\<lparr>Error := ''check origin: '' @ e\<rparr>, None), s2)
       | None \<Rightarrow>
      (let status = status\<lparr>HasOrigin := has\<rparr> in
       case isInProgress X ctx repoPath s2 of ((inProgress, err), s3) \<Rightarrow>
      (case err of
         Some e \<Rightarrow> ((status\<lparr>Error := ''check in-progress: '' @ e\<rparr>, None), s3)
       | None \<Rightarrow>
      (let status = status\<lparr>InProgress := inProgress\<rparr> in
       if \<not> has \<or> inProgress then ((status, None), s3)
       else
       case getDirtyCount X ctx repoPath s3 of ((dirty, err), s4) \<Rightarrow>
      (case err of
         Some e \<Rightarrow> ((status\<lparr>Error := ''get dirty count: '' @ e\<rparr>, None), s4)
       | None \<Rightarrow>
      (let status = status\<lparr>Dirty := dirty\<rparr> in
       case getUntrackedFiles X ctx repoPath s4 of ((untracked, err), s5) \<Rightarrow>
      (case err of
         Some e \<Rightarrow> ((status\<lparr>Error := ''get untracked: '' @ e\<rparr>, None), s5)
       | None \<Rightarrow>
      (let status = status\<lparr>Untracked := int (length untracked)\<rparr> in
       case getAheadBehind X ctx repoPath s5 of ((ahead, behind, err), s6) \<Rightarrow>
      (case err of
         Some e \<Rightarrow> ((status\<lparr>Error := ''get ahead/behind: '' @ e\<rparr>, None), s6)
       | None \<Rightarrow>
      (case collect_stats X ctx repoPath (status\<lparr>Ahead := ahead, Behind := behind\<rparr>) s6 of
         (status', s7) \<Rightarrow> ((status', None), s7))))))))))))))"

definition Preconditions ::
  "'w sys \<Rightarrow> go_context \<Rightarrow> string \<Rightarrow> 'w st \<Rightarrow> (bool \<times> string) \<times> 'w st" where
  "Preconditions X ctx repoPath s =
     (case hasOrigin X ctx repoPath s of ((has, err), s1) \<Rightarrow>
      (case err of
         Some e \<Rightarrow> ((False, ''check origin: '' @ e), s1)
       | None \<Rightarrow>
      (if \<not> has then ((False, ''no origin remote''), s1)
       else
       case isInProgress X ctx repoPath s1 of ((inProgress, err), s2) \<Rightarrow>
      (case err of
         Some e \<Rightarrow> ((False, ''check progress: '' @ e), s2)
       | None \<Rightarrow>
      (if inProgress then ((False, ''rebase/merge in progress''), s2)
       else ((True, []), s2))))))"

subsection \<open>The junk-file guard\<close>

text \<open>
  \<^verbatim>\<open>junkRegex\<close> is a case-insensitive alternation of literals, so it matches a string
  exactly when one of the literals, folded, starts at some position. Under \<^verbatim>\<open>(?i)\<close>
  an ASCII letter matches both of its cases, and \<open>s\<close> also matches U+017F (bytes C5 BF),
  the only non-ASCII rune that folds to a letter of these literals.
\<close>

definition junk_literals :: "string list" where
  "junk_literals =
     [''node_modules'', ''.venv'', ''venv'', ''dist'', ''build'', ''.tox'', ''.ruff_cache'',
      ''.mypy_cache'', ''.pytest_cache'', ''.ds_store'', ''coverage'', ''.cache'']"

definition to_lower :: "char \<Rightarrow> char" where
  "to_lower c = (if 65 \<le> (of_char c :: nat) \<and> (of_char c :: nat) \<le> 90
                 then char_of ((of_char c :: nat) + 32) else c)"

fun match_fold :: "string \<Rightarrow> string \<Rightarrow> bool" where
  "match_fold [] t = True"
| "match_fold (p # ps) [] = False"
| "match_fold (p # ps) (c # cs) =
     (if to_lower c = p then match_fold ps cs
      else if p = CHR ''s'' \<and> c = CHR 0xC5 \<and> cs \<noteq> [] \<and> hd cs = CHR 0xBF then match_fold ps (tl cs)
      else False)"

definition junkRegex_MatchString :: "string \<Rightarrow> bool" where
  "junkRegex_MatchString file =
     list_ex (\<lambda>t. list_ex (\<lambda>lit. match_fold lit t) junk_literals) (suffixes file)"

definition HasJunkFiles ::
  "'w sys \<Rightarrow> go_context \<Rightarrow> string \<Rightarrow> 'w st \<Rightarrow> (bool \<times> string list \<times> string option) \<times> 'w st" where
  "HasJunkFiles X ctx repoPath s =
     (case getUntrackedFiles X ctx repoPath s of
        ((untracked, err), s') \<Rightarrow>
          (case err of
             Some e \<Rightarrow> ((False, [], Some e), s')
           | None \<Rightarrow>
               (let junkFiles = filter junkRegex_MatchString untracked
                in ((length junkFiles > 0, junkFiles, None), s'))))"


subsection \<open>Finding the latest remote WIP branch\<close>

text \<open>
  \<^verbatim>\<open>time.Parse("2006-01-02 15:04:05 -0700", value)\<close> of the Go standard library, for
  this one layout: a four-digit year, two-digit month and day, a run of spaces, the hour
  (one or two digits), two-digit minute and second, an optional fractional second, a run
  of spaces and a numeric zone \<open>+hhmm\<close> or \<open>-hhmm\<close>; nothing may follow. A space of the
  layout is matched by the end of the value or by one or more spaces of it. The result is
  the instant: seconds since the Unix epoch and nanoseconds.
\<close>

record go_time =
  unix_sec :: int
  nsec :: nat

definition time_After :: "go_time \<Rightarrow> go_time \<Rightarrow> bool" where
  "time_After t u = (unix_sec t > unix_sec u \<or> (unix_sec t = unix_sec u \<and> nsec t > nsec u))"

text \<open>The zero \<^verbatim>\<open>time.Time\<close>: January 1, year 1, 00:00:00 UTC.\<close>

definition zero_time :: go_time where
  "zero_time = \<lparr>unix_sec = - 62135596800, nsec = 0\<rparr>"

definition getnum :: "string \<Rightarrow> bool \<Rightarrow> (nat \<times> string) option" where
  "getnum s fixed =
     (case s of
        [] \<Rightarrow> None
      | a # r \<Rightarrow>
          (if \<not> is_digit a then None
           else (case r of
                   [] \<Rightarrow> (if fixed then None else Some (digit_val a, r))
                 | b # r' \<Rightarrow>
                     (if \<not> is_digit b then (if fixed then None else Some (digit_val a, r))
                      else Some (digit_val a * 10 + digit_val b, r')))))"

definition skip_lit :: "char \<Rightarrow> string \<Rightarrow> string option" where
  "skip_lit c v = (case v of [] \<Rightarrow> None | x # r \<Rightarrow> if x = c then Some r else None)"

definition skip_space :: "string \<Rightarrow> string option" where
  "skip_space v =
     (case v of
        [] \<Rightarrow> Some []
      | x # r \<Rightarrow> if x \<noteq> CHR '' '' then None else Some (dropWhile (\<lambda>c. c = CHR '' '') v))"

definition isLeap :: "nat \<Rightarrow> bool" where
  "isLeap year = (year mod 4 = 0 \<and> (year mod 100 \<noteq> 0 \<or> year mod 400 = 0))"

definition daysIn :: "nat \<Rightarrow> nat \<Rightarrow> nat" where
  "daysIn m year =
     (if m = 2 then (if isLeap year then 29 else 28)
      else if m = 4 \<or> m = 6 \<or> m = 9 \<or> m = 11 then 30 else 31)"

text \<open>Days from 1970-01-01 to the given date of the proleptic Gregorian calendar.\<close>

definition days_from_civil :: "int \<Rightarrow> int \<Rightarrow> int \<Rightarrow> int" where
  "days_from_civil y m d =
     (let y' = (if m \<le> 2 then y - 1 else y);
          era = y' div 400;
          yoe = y' - era * 400;
          doy = (153 * (m + (if m > 2 then - 3 else 9)) + 2) div 5 + d - 1;
          doe = yoe * 365 + yoe div 4 - yoe div 100 + doy
      in era * 146097 + doe - 719468)"

text \<open>The optional fractional second: a comma or period and digits, of which nine count.\<close>

definition parse_fraction :: "string \<Rightarrow> nat \<times> string" where
  "parse_fraction v =
     (case v of
        c # d # r \<Rightarrow>
          (if (c = CHR ''.'' \<or> c = CHR '','') \<and> is_digit d
           then (let ds = takeWhile is_digit (d # r);
                     kept = take 9 ds
                 in (decimal 0 kept * 10 ^ (9 - length kept), dropWhile is_digit (d # r)))
           else (0, v))
      | _ \<Rightarrow> (0, v))"

definition parse_zone :: "string \<Rightarrow> (int \<times> string) option" where
  "parse_zone v =
     (if length v < 5 then None
      else (case (getnum (take 2 (drop 1 v)) True, getnum (take 2 (drop 3 v)) True) of
              (Some (hr, _), Some (mm, _)) \<Rightarrow>
                (if hr > 24 \<or> mm > 60 then None
                 else if hd v = CHR ''+'' then Some (int ((hr * 60 + mm) * 60), drop 5 v)
                 else if hd v = CHR ''-'' then Some (- int ((hr * 60 + mm) * 60), drop 5 v)
                 else None)
            | _ \<Rightarrow> None))"

definition parse_clock :: "string \<Rightarrow> (nat \<times> nat \<times> nat \<times> nat \<times> int) option" where
  "parse_clock v =
     (case getnum v False of None \<Rightarrow> None | Some (hour, v1) \<Rightarrow>
      if 24 \<le> hour then None else
      case skip_lit (CHR '':'') v1 of None \<Rightarrow> None | Some v2 \<Rightarrow>
      case getnum v2 True of None \<Rightarrow> None | Some (minute, v3) \<Rightarrow>
      if 60 \<le> minute then None else
      case skip_lit (CHR '':'') v3 of None \<Rightarrow> None | Some v4 \<Rightarrow>
      case getnum v4 True of None \<Rightarrow> None | Some (sec, v5) \<Rightarrow>
      if 60 \<le> sec then None else
      case parse_fraction v5 of (ns, v6) \<Rightarrow>
      case skip_space v6 of None \<Rightarrow> None | Some v7 \<Rightarrow>
      case parse_zone v7 of None \<Rightarrow> None | Some (zoneOffset, v8) \<Rightarrow>
      if v8 \<noteq> [] then None else Some (hour, minute, sec, ns, zoneOffset))"

definition time_Parse :: "string \<Rightarrow> go_time option" where
  "time_Parse value =
     (if length value < 4 \<or> \<not> list_all is_digit (take 4 value) then None else
      let year = decimal 0 (take 4 value) in
      case skip_lit (CHR ''-'') (drop 4 value) of None \<Rightarrow> None | Some v1 \<Rightarrow>
      case getnum v1 True of None \<Rightarrow> None | Some (month, v2) \<Rightarrow>
      if month = 0 \<or> 12 < month then None else
      case skip_lit (CHR ''-'') v2 of None \<Rightarrow> None | Some v3 \<Rightarrow>
      case getnum v3 True of None \<Rightarrow> None | Some (day, v4) \<Rightarrow>
      case skip_space v4 of None \<Rightarrow> None | Some v5 \<Rightarrow>
      case parse_clock v5 of None \<Rightarrow> None | Some (hour, minute, sec, ns, zoneOffset) \<Rightarrow>
      if day < 1 \<or> day > daysIn month year then None
      else Some \<lparr>unix_sec = days_from_civil (int year) (int month) (int day) * 86400
                              + int (hour * 3600 + minute * 60 + sec) - zoneOffset,
                  nsec = ns\<rparr>)"

text \<open>The loop of \<^verbatim>\<open>LatestRemoteWIP\<close> over the lines, with its two variables.\<close>

fun latest_loop :: "string list \<Rightarrow> string \<times> go_time \<Rightarrow> string \<times> go_time" where
  "latest_loop [] acc = acc"
| "latest_loop (line # rest) (latest, latestTime) =
     (case strings_SplitN2 line (CHR '' '') of
        [p0, p1] \<Rightarrow>
          (case time_Parse p0 of
             None \<Rightarrow> latest_loop rest (latest, latestTime)
           | Some t \<Rightarrow>
               (if latest = [] \<or> time_After t latestTime then latest_loop rest (p1, t)
                else latest_loop rest (latest, latestTime)))
      | _ \<Rightarrow> latest_loop rest (latest, latestTime))"

definition LatestRemoteWIP ::
  "'w sys \<Rightarrow> go_context \<Rightarrow> string \<Rightarrow> 'w st \<Rightarrow> (string \<times> string option) \<times> 'w st" where
  "LatestRemoteWIP X ctx repoPath s =
     (case runGitOutput X ctx repoPath
             [''for-each-ref'', ''--format=%(committerdate:iso8601) %(refname)'',
              ''refs/remotes/origin/wip/''] s of
        ((out, err), s') \<Rightarrow>
          (case err of
             Some e \<Rightarrow> (([], Some e), s')
           | None \<Rightarrow>
               (case strings_Split (strings_TrimSpace out) LF of
                  [] \<Rightarrow> (([], Some ''no WIP branches found''), s')
                | l0 # ls \<Rightarrow>
                    (if l0 = [] then (([], Some ''no WIP branches found''), s')
                     else (case latest_loop (l0 # ls) ([], zero_time) of
                             (latest, latestTime) \<Rightarrow>
                               (if latest = [] then (([], Some ''no valid WIP branches found''), s')
                                else ((latest, None), s')))))))"


section \<open>The report model (package report)\<close>

record ReportEntry =
  Repo :: string
  Outcome :: string
  Details :: string
  Warnings :: "string list"
  Errors :: "string list"

record CheckpointEntry = ReportEntry +
  Branch_c :: string
  FilesModified :: int
  FilesAdded :: int
  LinesAdded_c :: int
  LinesRemoved_c :: int
  CommitHash :: string
  WipBranch :: string
  RecentCommits :: "string list"
  ChangedFiles :: "string list"
  CommitMessage :: string
  FeatureName :: string
  CrossRepoGroup :: string

definition CreatePushEntry :: "string \<Rightarrow> string \<Rightarrow> string \<Rightarrow> string \<Rightarrow> ReportEntry" where
  "CreatePushEntry repo branch wipBranch outcome =
     \<lparr>Repo = repo, Outcome = outcome,
      Details = (if wipBranch \<noteq> [] then branch @ '' (wip='' @ wipBranch @ '')'' else branch),
      Warnings = [], Errors = []\<rparr>"

text \<open>The arrow of the pull details is U+2192 (bytes E2 86 92).\<close>

definition CreatePullEntry :: "string \<Rightarrow> string \<Rightarrow> string \<Rightarrow> string \<Rightarrow> ReportEntry" where
  "CreatePullEntry repo fromBranch toBranch outcome =
     \<lparr>Repo = repo, Outcome = outcome,
      Details = (if fromBranch \<noteq> [] \<and> toBranch \<noteq> []
                 then fromBranch @ '' '' @ [CHR 0xE2, CHR 0x86, CHR 0x92] @ '' '' @ toBranch else []),
      Warnings = [], Errors = []\<rparr>"

definition CreateCheckpointEntry :: "string \<Rightarrow> string \<Rightarrow> string \<Rightarrow> string \<Rightarrow> CheckpointEntry" where
  "CreateCheckpointEntry repo branch outcome details =
     \<lparr>Repo = repo, Outcome = outcome, Details = details, Warnings = [], Errors = [],
      Branch_c = branch, FilesModified = 0, FilesAdded = 0, LinesAdded_c = 0, LinesRemoved_c = 0,
      CommitHash = [], WipBranch = [], RecentCommits = [], ChangedFiles = [],
      CommitMessage = [], FeatureName = [], CrossRepoGroup = []\<rparr>"

definition AddWarning :: "'a ReportEntry_scheme \<Rightarrow> string \<Rightarrow> 'a ReportEntry_scheme" where
  "AddWarning e warning = e\<lparr>Warnings := Warnings e @ [warning]\<rparr>"

definition AddError :: "'a ReportEntry_scheme \<Rightarrow> string \<Rightarrow> 'a ReportEntry_scheme" where
  "AddError e err = e\<lparr>Errors := Errors e @ [err]\<rparr>"

section \<open>The per-repository operations (package cmd)\<close>

text \<open>A discovered repository, and the package-level flags the operations read.\<close>

record Repo =
  Path :: string
  Name :: string

record config =
  autoAdd :: bool
  pushConcurrency :: int
  aiCommit :: bool
  aiReview :: bool
  hostName :: string
  checkpointMessage :: string
  checkpointFeature :: string
  checkpointCrossRepo :: bool

subsection \<open>Push\<close>

text \<open>The dash of the fallback message is U+2014 (bytes E2 80 94).\<close>

definition generateCommitMessage ::
  "'w sys \<Rightarrow> config \<Rightarrow> go_context \<Rightarrow> Repo \<Rightarrow> RepoStatus \<Rightarrow> 'w st \<Rightarrow> string \<times> 'w st" where
  "generateCommitMessage X cfg ctx repo status s =
     (let fallback = ''chore(wip): checkpoint '' @ hostName cfg @ '' ('' @ Branch status @ '') ''
                     @ [CHR 0xE2, CHR 0x80, CHR 0x94] @ '' '' @ fmt_d (Dirty status + Untracked status)
                     @ '' files @ '' @ clock X (world s) ''2006-01-02 15:04:05''
      in if \<not> aiCommit cfg then (fallback, s)
         else
         case DiffNameStatusCached X ctx (Path repo) s of ((nameStatus, err1), s1) \<Rightarrow>
         case DiffStatCached X ctx (Path repo) s1 of ((diffStat, err2), s2) \<Rightarrow>
         case ListUntracked X ctx (Path repo) s2 of ((untracked, err3), s3) \<Rightarrow>
         case LogNSubjects X ctx (Path repo) 5 s3 of ((subjects, err4), s4) \<Rightarrow>
         (let input = \<lparr>Repo_in = Name repo, Branch_in = Branch status, Host_in = hostName cfg,
                        NameStatus_in = (if err1 = None then nameStatus else []),
                        DiffStat_in = (if err2 = None then diffStat else []),
                        Untracked_in = (if err3 = None then untracked else []),
                        PriorSubjects_in = (if err4 = None then subjects else [])\<rparr>
          in case commit_message X (world s4) input of
               (message, err) \<Rightarrow>
                 (if err \<noteq> None then (fallback, s4)
                  else if message = [] then (fallback, s4)
                  else if aiReview cfg
                  then (let s5 = printf (''  '' @ message @ [LF, LF]) s4
                        in if \<not> confirm X (world s5) ''Accept this message?'' then (fallback, s5)
                           else (message, s5))
                  else (message, s4))))"

text \<open>Lines 164 to 198 of \<^verbatim>\<open>processRepoPush\<close>: the staging decision. \<open>Some entry\<close> is an
  early return with that entry; \<open>None\<close> goes on to the commit.\<close>

definition push_add ::
  "'w sys \<Rightarrow> go_context \<Rightarrow> Repo \<Rightarrow> ReportEntry \<Rightarrow> 'w st \<Rightarrow> ReportEntry option \<times> 'w st" where
  "push_add X ctx repo entry s =
     (case AddAll X ctx (Path repo) s of (err, s') \<Rightarrow>
      (case err of
         Some e \<Rightarrow> (Some (AddError (entry\<lparr>Outcome := ''error''\<rparr>) (''add all failed: '' @ e)), s')
       | None \<Rightarrow> (None, s')))"

definition push_stage ::
  "'w sys \<Rightarrow> config \<Rightarrow> go_context \<Rightarrow> Repo \<Rightarrow> ReportEntry \<Rightarrow> 'w st \<Rightarrow> ReportEntry option \<times> 'w st" where
  "push_stage X cfg ctx repo entry s =
     (case HasJunkFiles X ctx (Path repo) s of ((hasJunk, junkFiles, err), s1) \<Rightarrow>
      (case err of
         Some e \<Rightarrow> (Some (AddError (entry\<lparr>Outcome := ''error''\<rparr>) (''junk check failed: '' @ e)), s1)
       | None \<Rightarrow>
      (if hasJunk
       then (Some (AddWarning (entry\<lparr>Outcome := ''skipped''\<rparr>)
                     (''untracked junk files found: '' @ fmt_v_list junkFiles)), s1)
       else if \<not> autoAdd cfg
       then (if pushConcurrency cfg = 1
             then (if \<not> confirm X (world s1) (Name repo @ '': Add all changes and continue?'')
                   then (Some (AddWarning (entry\<lparr>Outcome := ''skipped''\<rparr>)
                                 ''user declined to add changes''), s1)
                   else push_add X ctx repo entry s1)
             else (Some (AddWarning (entry\<lparr>Outcome := ''skipped''\<rparr>)
                           ''changes present but auto-add not enabled''), s1))
       else push_add X ctx repo entry s1)))"

text \<open>Lines 220 to 229: switching back and pushing the original branch, best effort.\<close>

definition push_original ::
  "'w sys \<Rightarrow> go_context \<Rightarrow> Repo \<Rightarrow> RepoStatus \<Rightarrow> ReportEntry \<Rightarrow> 'w st \<Rightarrow> ReportEntry \<times> 'w st" where
  "push_original X ctx repo status entry s =
     (case RemoteHasBranch X ctx (Path repo) (Branch status) s of ((hasRemote, err), s1) \<Rightarrow>
      (if err = None \<and> hasRemote
       then (case Switch X ctx (Path repo) (Branch status) s1 of (err1, s2) \<Rightarrow>
             (case err1 of
                Some e \<Rightarrow> (AddWarning entry (''failed to switch back to '' @ Branch status), s2)
              | None \<Rightarrow>
             (case Push X ctx (Path repo) (Branch status) s2 of (err2, s3) \<Rightarrow>
              (case err2 of
                 Some e \<Rightarrow> (AddWarning entry (''failed to push current branch '' @ Branch status), s3)
               | None \<Rightarrow> (entry, s3)))))
       else (entry, s1)))"

text \<open>Lines 200 to 233: message, WIP branch, commit, push.\<close>

definition push_commit ::
  "'w sys \<Rightarrow> config \<Rightarrow> go_context \<Rightarrow> Repo \<Rightarrow> RepoStatus \<Rightarrow> string \<Rightarrow> ReportEntry \<Rightarrow> 'w st
     \<Rightarrow> ReportEntry \<times> 'w st" where
  "push_commit X cfg ctx repo status wipPrefix entry s =
     (case generateCommitMessage X cfg ctx repo status s of (message, s1) \<Rightarrow>
      case SwitchCreate X ctx (Path repo) wipPrefix s1 of (err1, s2) \<Rightarrow>
      (case err1 of
         Some e \<Rightarrow> (AddError (entry\<lparr>Outcome := ''error''\<rparr>) (''create WIP branch failed: '' @ e), s2)
       | None \<Rightarrow>
      (case CommitAllowEmpty X ctx (Path repo) message s2 of (err2, s3) \<Rightarrow>
      (case err2 of
         Some e \<Rightarrow> (AddError (entry\<lparr>Outcome := ''error''\<rparr>) (''commit failed: '' @ e), s3)
       | None \<Rightarrow>
      (case PushUpstream X ctx (Path repo) wipPrefix s3 of (err3, s4) \<Rightarrow>
      (case err3 of
         Some e \<Rightarrow> (AddError (entry\<lparr>Outcome := ''error''\<rparr>) (''push WIP branch failed: '' @ e), s4)
       | None \<Rightarrow>
      (case push_original X ctx repo status entry s4 of
         (entry', s5) \<Rightarrow> (entry'\<lparr>Outcome := ''success''\<rparr>, s5))))))))"

definition processRepoPush ::
  "'w sys \<Rightarrow> config \<Rightarrow> go_context \<Rightarrow> Repo \<Rightarrow> string \<Rightarrow> 'w st \<Rightarrow> ReportEntry \<times> 'w st" where
  "processRepoPush X cfg ctx repo wipPrefix s =
     (let entry = CreatePushEntry (Name repo) [] wipPrefix [] in
      case Preconditions X ctx (Path repo) s of ((ok, reason), s1) \<Rightarrow>
      if \<not> ok then (AddWarning (entry\<lparr>Outcome := ''skipped''\<rparr>) reason, s1)
      else
      case Fetch X ctx (Path repo) s1 of (err, s2) \<Rightarrow>
      (case err of
         Some e \<Rightarrow> (AddError (entry\<lparr>Outcome := ''error''\<rparr>) (''fetch failed: '' @ e), s2)
       | None \<Rightarrow>
      (case Status X ctx (Path repo) s2 of ((status, err), s3) \<Rightarrow>
      (case err of
         Some e \<Rightarrow> (AddError (entry\<lparr>Outcome := ''error''\<rparr>) (''status check failed: '' @ e), s3)
       | None \<Rightarrow>
      (let entry = entry\<lparr>Details := Branch status @ '' (wip='' @ wipPrefix @ '')''\<rparr> in
       if Dirty status > 0 \<or> Untracked status > 0
       then (case push_stage X cfg ctx repo entry s3 of
               (Some early, s4) \<Rightarrow> (early, s4)
             | (None, s4) \<Rightarrow> push_commit X cfg ctx repo status wipPrefix entry s4)
       else push_commit X cfg ctx repo status wipPrefix entry s3)))))"

subsection \<open>Pull\<close>

text \<open>
  \<^verbatim>\<open>createTrackingBranch\<close>: after \<^verbatim>\<open>SwitchCreate\<close> the function formats the text
  \<^verbatim>\<open>git branch --set-upstream-to=origin/<remoteShort> <localBranch>\<close> and hands it to
  \<^verbatim>\<open>slog.Debug\<close>; it starts no process for it.
\<close>

definition createTrackingBranch ::
  "'w sys \<Rightarrow> go_context \<Rightarrow> string \<Rightarrow> string \<Rightarrow> string \<Rightarrow> 'w st \<Rightarrow> string option \<times> 'w st" where
  "createTrackingBranch X ctx repoPath localBranch remoteBranch s =
     (case SwitchCreate X ctx repoPath localBranch s of (err, s1) \<Rightarrow>
      (case err of
         Some e \<Rightarrow> (Some (''create local branch: '' @ e), s1)
       | None \<Rightarrow> (None, s1)))"

text \<open>Lines 130 to 171 of \<^verbatim>\<open>processRepoPull\<close>: from the stash to the conflict check.\<close>

definition pull_switch ::
  "'w sys \<Rightarrow> go_context \<Rightarrow> Repo \<Rightarrow> string \<Rightarrow> string \<Rightarrow> ReportEntry \<Rightarrow> 'w st \<Rightarrow> ReportEntry \<times> 'w st" where
  "pull_switch X ctx repo originalBranch latestWipRemote entry0 s =
     (let wipBranchName = TrimOrigin latestWipRemote;
          entry = entry0\<lparr>Details := originalBranch @ '' '' @ [CHR 0xE2, CHR 0x86, CHR 0x92] @ '' ''
                                      @ wipBranchName\<rparr>;
          stashMessage = ''wipctl auto-stash before pull - '' @ wipBranchName
      in
      case Stash X ctx (Path repo) stashMessage s of (stashErr, s1) \<Rightarrow>
      case SwitchCreate X ctx (Path repo) wipBranchName s1 of (err1, s2) \<Rightarrow>
      (case err1 of
         Some e \<Rightarrow> (AddError (entry\<lparr>Outcome := ''error''\<rparr>) (''switch to WIP branch failed: '' @ e), s2)
       | None \<Rightarrow>
      (case Switch X ctx (Path repo) wipBranchName s2 of (err2, s3) \<Rightarrow>
      (case (if err2 \<noteq> None
             then createTrackingBranch X ctx (Path repo) wipBranchName latestWipRemote s3
             else (None, s3)) of
         (Some createErr, s4) \<Rightarrow>
           (AddError (entry\<lparr>Outcome := ''error''\<rparr>) (''create tracking branch failed: '' @ createErr), s4)
       | (None, s4) \<Rightarrow>
      (case StashPop X ctx (Path repo) s4 of (popErr, s5) \<Rightarrow>
       case HasConflicts X ctx (Path repo) s5 of ((hasConflicts, conflictFiles, err3), s6) \<Rightarrow>
      (let entry = (case err3 of
                      Some e \<Rightarrow> AddWarning entry (''conflict detection failed: '' @ e)
                    | None \<Rightarrow> entry)
       in if hasConflicts
          then (AddWarning (entry\<lparr>Outcome := ''conflicts''\<rparr>)
                  (''conflicts in files: '' @ fmt_v_list conflictFiles), s6)
          else (entry\<lparr>Outcome := ''success''\<rparr>, s6)))))))"

definition processRepoPull ::
  "'w sys \<Rightarrow> go_context \<Rightarrow> Repo \<Rightarrow> 'w st \<Rightarrow> ReportEntry \<times> 'w st" where
  "processRepoPull X ctx repo s =
     (let entry = CreatePullEntry (Name repo) [] [] [] in
      case Preconditions X ctx (Path repo) s of ((ok, reason), s1) \<Rightarrow>
      if \<not> ok then (AddWarning (entry\<lparr>Outcome := ''skipped''\<rparr>) reason, s1)
      else
      case Status X ctx (Path repo) s1 of ((status, err), s2) \<Rightarrow>
      (case err of
         Some e \<Rightarrow> (AddError (entry\<lparr>Outcome := ''error''\<rparr>) (''status check failed: '' @ e), s2)
       | None \<Rightarrow>
      (case Fetch X ctx (Path repo) s2 of (err1, s3) \<Rightarrow>
      (case err1 of
         Some e \<Rightarrow> (AddError (entry\<lparr>Outcome := ''error''\<rparr>) (''fetch failed: '' @ e), s3)
       | None \<Rightarrow>
      (case LatestRemoteWIP X ctx (Path repo) s3 of ((latestWipRemote, err2), s4) \<Rightarrow>
      (case err2 of
         Some e \<Rightarrow> (AddWarning (entry\<lparr>Outcome := ''no-wip''\<rparr>) ''no WIP branches found on origin'', s4)
       | None \<Rightarrow> pull_switch X ctx repo (Branch status) latestWipRemote entry s4))))))"


subsection \<open>Checkpoint\<close>

text \<open>\<^verbatim>\<open>filepath.Base\<close> on a Unix path.\<close>

definition filepath_Base :: "string \<Rightarrow> string" where
  "filepath_Base path =
     (if path = [] then ''.''
      else (let p = rev (dropWhile (\<lambda>c. c = CHR ''/'') (rev path))
            in if p = [] then ''/'' else rev (takeWhile (\<lambda>c. c \<noteq> CHR ''/'') (rev p))))"

definition generateEnhancedCheckpointCommitMessage ::
  "'w sys \<Rightarrow> config \<Rightarrow> go_context \<Rightarrow> string \<Rightarrow> RepoStatus \<Rightarrow> 'w st
     \<Rightarrow> (string \<times> string option) \<times> 'w st" where
  "generateEnhancedCheckpointCommitMessage X cfg ctx repoPath status s =
     (case DiffStatCached X ctx repoPath s of ((diffStat, err1), s1) \<Rightarrow>
      case DiffNameStatusCached X ctx repoPath s1 of ((nameStatus, err2), s2) \<Rightarrow>
      case LogNSubjects X ctx repoPath 5 s2 of ((recentCommits, err3), s3) \<Rightarrow>
      (let input = \<lparr>Repo_in = filepath_Base repoPath, Branch_in = Branch status,
                     Host_in = hostName cfg,
                     NameStatus_in = (if err2 \<noteq> None then [] else nameStatus),
                     DiffStat_in = (if err1 \<noteq> None then [] else diffStat),
                     Untracked_in = [],
                     PriorSubjects_in = (if err3 \<noteq> None then [] else recentCommits)\<rparr>
       in case commit_message X (world s3) input of
            (message, err) \<Rightarrow>
              (case err of
                 Some e \<Rightarrow> (([], Some e), s3)
               | None \<Rightarrow>
                   (let m1 = (if checkpointFeature cfg \<noteq> []
                              then ''feat('' @ checkpointFeature cfg @ ''): '' @ message else message);
                        m2 = (if checkpointMessage cfg \<noteq> []
                              then ''['' @ checkpointMessage cfg @ ''] '' @ m1 else m1)
                    in ((m2, None), s3)))))"

definition generateFallbackCheckpointMessage ::
  "'w sys \<Rightarrow> config \<Rightarrow> string \<Rightarrow> RepoStatus \<Rightarrow> 'w st \<Rightarrow> string" where
  "generateFallbackCheckpointMessage X cfg repoName status s =
     (let timestamp = clock X (world s) ''15:04'';
          m0 = ''checkpoint('' @ timestamp @ ''): rapid development sync'';
          m1 = (if checkpointMessage cfg \<noteq> [] then ''['' @ checkpointMessage cfg @ ''] '' @ m0 else m0);
          details = (if Dirty status > 0 then [fmt_d (Dirty status) @ '' files modified''] else [])
                    @ (if Untracked status > 0 then [fmt_d (Untracked status) @ '' files added''] else [])
      in if length details > 0 then m1 @ '' - '' @ strings_Join details '', '' else m1)"

text \<open>Lines 208 to 218: the names of the staged files, from the name-status listing.\<close>

definition changed_files :: "string \<Rightarrow> string list" where
  "changed_files nameStatus =
     concat (map (\<lambda>line.
                    if strings_TrimSpace line \<noteq> []
                    then (case strings_SplitN2 (strings_TrimSpace line) TAB of
                            [p0, p1] \<Rightarrow> [p1]
                          | _ \<Rightarrow> [])
                    else [])
                 (strings_Split nameStatus LF))"

text \<open>Lines 258 to 300: the WIP branch, its push, and the way back.\<close>

definition checkpoint_push ::
  "'w sys \<Rightarrow> config \<Rightarrow> go_context \<Rightarrow> string \<Rightarrow> RepoStatus \<Rightarrow> CheckpointEntry \<Rightarrow> 'w st
     \<Rightarrow> CheckpointEntry \<times> 'w st" where
  "checkpoint_push X cfg ctx repoPath status entry0 s =
     (let timestamp = clock X (world s) ''20060102-150405'';
          wipBranch = (if checkpointFeature cfg \<noteq> []
                       then ''wip/'' @ hostName cfg @ ''/'' @ checkpointFeature cfg @ ''/'' @ timestamp
                       else ''wip/'' @ hostName cfg @ ''/'' @ timestamp);
          entry = entry0\<lparr>WipBranch := wipBranch\<rparr>
      in
      case SwitchCreate X ctx repoPath wipBranch s of (err1, s1) \<Rightarrow>
      (case err1 of
         Some e \<Rightarrow> (AddError (entry\<lparr>Outcome := ''failed'', Details := ''failed to create WIP branch''\<rparr>)
                       (''git switch failed: '' @ e), s1)
       | None \<Rightarrow>
      (case PushUpstream X ctx repoPath wipBranch s1 of (err2, s2) \<Rightarrow>
      (case err2 of
         Some e \<Rightarrow> (AddError (entry\<lparr>Outcome := ''failed'', Details := ''failed to push WIP branch''\<rparr>)
                       (''git push failed: '' @ e), s2)
       | None \<Rightarrow>
      (case Switch X ctx repoPath (Branch status) s2 of (err3, s3) \<Rightarrow>
       (let entry1 = (case err3 of
                        Some e \<Rightarrow> AddWarning entry (''Failed to switch back to original branch: '' @ e)
                      | None \<Rightarrow> entry)
        in
        case RemoteHasBranch X ctx repoPath (Branch status) s3 of ((hasRemoteBranch, err4), s4) \<Rightarrow>
        (case (if err4 = None \<and> hasRemoteBranch then Push X ctx repoPath (Branch status) s4
               else (None, s4)) of
           (err5, s5) \<Rightarrow>
             (let entry2 = (case err5 of
                              Some e \<Rightarrow> AddWarning entry1 (''Failed to push original branch: '' @ e)
                            | None \<Rightarrow> entry1)
              in (entry2\<lparr>Outcome := ''success'', Details := ''checkpointed to '' @ wipBranch\<rparr>, s5)))))))))"

definition processEnhancedCheckpointRepo ::
  "'w sys \<Rightarrow> config \<Rightarrow> go_context \<Rightarrow> string \<Rightarrow> RepoStatus \<Rightarrow> 'w st
     \<Rightarrow> CheckpointEntry go \<times> 'w st" where
  "processEnhancedCheckpointRepo X cfg ctx repoPath status s =
     (let repoName = filepath_Base repoPath;
          entry = CreateCheckpointEntry repoName (Branch status) ''processing''
                    (''branch: '' @ Branch status);
          entry = (if checkpointFeature cfg \<noteq> [] then entry\<lparr>FeatureName := checkpointFeature cfg\<rparr>
                   else entry);
          entry = (if checkpointCrossRepo cfg then entry\<lparr>CrossRepoGroup := checkpointFeature cfg\<rparr>
                   else entry)
      in
      if \<not> HasOrigin status
      then (Ret (AddWarning (entry\<lparr>Outcome := ''skipped'', Details := ''no origin remote''\<rparr>)
                   ''Repository has no origin remote - skipping checkpoint''), s)
      else if InProgress status
      then (Ret (AddWarning (entry\<lparr>Outcome := ''skipped'', Details := ''rebase/merge in progress''\<rparr>)
                   ''Repository has ongoing rebase/merge - skipping checkpoint''), s)
      else
      (let entry = entry\<lparr>FilesModified := Dirty status, FilesAdded := Untracked status,
                          LinesAdded_c := LinesAdded status, LinesRemoved_c := LinesRemoved status\<rparr>
       in
       case DiffNameStatusCached X ctx repoPath s of ((nameStatus, err1), s1) \<Rightarrow>
       (let entry = (if err1 = None \<and> nameStatus \<noteq> []
                     then entry\<lparr>ChangedFiles := ChangedFiles entry @ changed_files nameStatus\<rparr>
                     else entry)
        in
        case LogNSubjects X ctx repoPath 3 s1 of ((recentCommits, err2), s2) \<Rightarrow>
        (let entry = (if err2 = None then entry\<lparr>RecentCommits := recentCommits\<rparr> else entry)
         in
         case (if Dirty status > 0 \<or> Untracked status > 0 then AddAll X ctx repoPath s2
               else (None, s2)) of
           (Some e, s3) \<Rightarrow>
             (Ret (AddError (entry\<lparr>Outcome := ''failed'', Details := ''failed to stage changes''\<rparr>)
                     (''git add failed: '' @ e)), s3)
         | (None, s3) \<Rightarrow>
         (case generateEnhancedCheckpointCommitMessage X cfg ctx repoPath status s3 of
            ((aiMsg, err3), s4) \<Rightarrow>
         (let commitMsg = (if err3 \<noteq> None
                           then generateFallbackCheckpointMessage X cfg repoName status s4
                           else aiMsg);
              entry = entry\<lparr>CommitMessage := commitMsg\<rparr>
          in
          case CommitAllowEmpty X ctx repoPath commitMsg s4 of (err4, s5) \<Rightarrow>
          (case err4 of
             Some e \<Rightarrow>
               (Ret (AddError (entry\<lparr>Outcome := ''failed'', Details := ''failed to create commit''\<rparr>)
                       (''git commit failed: '' @ e)), s5)
           | None \<Rightarrow>
          (case GetLastCommitHash X ctx repoPath s5 of ((hash, err5), s6) \<Rightarrow>
           if err5 = None \<and> length hash < 8
           then (Panic ''slice bounds out of range [:8]'', s6)
           else
           (let entry = (if err5 = None then entry\<lparr>CommitHash := take 8 hash\<rparr> else entry)
            in case checkpoint_push X cfg ctx repoPath status entry s6 of
                 (entry', s7) \<Rightarrow> (Ret entry', s7))))))))))"


section \<open>Repository discovery (package workspace)\<close>

text \<open>
  The file system is a tree. \<open>File content\<close> is a regular file that can be read,
  \<open>Unreadable\<close> a regular file on which \<^verbatim>\<open>os.ReadFile\<close> fails, \<open>Dir entries\<close> a
  directory with its entries in the order \<^verbatim>\<open>filepath.Walk\<close> visits them (sorted by
  name), and \<open>Broken\<close> an entry on which \<^verbatim>\<open>os.Lstat\<close> and \<^verbatim>\<open>os.Stat\<close> fail (a missing
  one too). A path is the list of its elements from the root of the tree:
  \<^verbatim>\<open>filepath.Join(path, name)\<close> appends an element, \<^verbatim>\<open>filepath.Dir\<close> drops the last,
  and \<^verbatim>\<open>info.Name()\<close> is the last.
\<close>

datatype fsnode = File string | Unreadable | Dir "(string \<times> fsnode) list" | Broken

fun lookup :: "fsnode \<Rightarrow> string list \<Rightarrow> fsnode" where
  "lookup n [] = n"
| "lookup (Dir entries) (c # cs) =
     (case map_of entries c of None \<Rightarrow> Broken | Some n \<Rightarrow> lookup n cs)"
| "lookup _ (c # cs) = Broken"

definition base_name :: "string list \<Rightarrow> string" where
  "base_name path = (if path = [] then ''/'' else last path)"

definition path_string :: "string list \<Rightarrow> string" where
  "path_string path = (if path = [] then ''/'' else concat (map (\<lambda>c. ''/'' @ c) path))"

text \<open>
  A byte slice is its backing array from the slice's start, of which the first \<open>len\<close>
  bytes are the slice; the capacity is the length of the backing array. The slice
  expression \<^verbatim>\<open>b[:n]\<close> is in range up to the capacity (Go specification, slice
  expressions: for slices, the upper index bound is the capacity rather than the
  length) and panics beyond it.
\<close>

record byteslice =
  backing :: string
  len :: nat

definition slice_to :: "byteslice \<Rightarrow> nat \<Rightarrow> byteslice go" where
  "slice_to b n =
     (if n \<le> length (backing b) then Ret (b\<lparr>len := n\<rparr>)
      else Panic ''slice bounds out of range'')"

definition slice_string :: "byteslice \<Rightarrow> string" where
  "slice_string b = take (len b) (backing b)"

text \<open>
  \<^verbatim>\<open>os.ReadFile\<close> of the Go standard library reads into a buffer made with
  \<^verbatim>\<open>make([]byte, 0, size)\<close>, where \<open>size\<close> is the file's size plus one and at least 512,
  and returns the part it filled; the rest of the buffer holds zero bytes.
\<close>

definition os_ReadFile :: "string \<Rightarrow> byteslice" where
  "os_ReadFile content =
     \<lparr>backing = content @ replicate (max 512 (length content + 1) - length content) (CHR 0x00),
      len = length content\<rparr>"

definition isValidGitRepo :: "fsnode \<Rightarrow> string list \<Rightarrow> bool go" where
  "isValidGitRepo fs path =
     (case lookup fs (path @ [''.git'']) of
        Broken \<Rightarrow> Ret False
      | Dir entries \<Rightarrow> Ret True
      | Unreadable \<Rightarrow> Ret False
      | File text \<Rightarrow>
          (let content = os_ReadFile text
           in if len content > 0
              then (case slice_to content 8 of
                      Panic m \<Rightarrow> Panic m
                    | Ret c8 \<Rightarrow> Ret (slice_string c8 = ''gitdir: ''))
              else Ret False))"

text \<open>
  \<^verbatim>\<open>getRepoName\<close>. The branch for the name \<open>.\<close> (a relative workspace path) does not
  arise for a path from the root.
\<close>

definition getRepoName :: "string list \<Rightarrow> string" where
  "getRepoName repoPath =
     (let name = base_name repoPath;
          name = (if name = [] \<or> name = ''/'' \<or> name = [CHR 0x5C] then ''root'' else name);
          name = strings_TrimSpace name
      in if name = [] then ''unknown'' else name)"

text \<open>
  \<^verbatim>\<open>filepath.Walk\<close> with the callback of \<^verbatim>\<open>Discover\<close>: the callback returns the error
  it is handed (which ends the walk), ignores what is not a directory, and for a
  directory named \<open>.git\<close> records the parent as a candidate and returns
  \<^verbatim>\<open>filepath.SkipDir\<close>. The result is the candidates in the order found, and the
  error of the walk.
\<close>

fun walk :: "string list \<Rightarrow> fsnode \<Rightarrow> string list list \<Rightarrow> string list list \<times> string option"
  and walk_entries ::
    "string list \<Rightarrow> (string \<times> fsnode) list \<Rightarrow> string list list \<Rightarrow> string list list \<times> string option"
  where
  "walk path Broken acc = (acc, Some (''lstat '' @ path_string path))"
| "walk path (File text) acc = (acc, None)"
| "walk path Unreadable acc = (acc, None)"
| "walk path (Dir entries) acc =
     (if base_name path = ''.git'' then (acc @ [butlast path], None)
      else walk_entries path entries acc)"
| "walk_entries path [] acc = (acc, None)"
| "walk_entries path ((name, n) # rest) acc =
     (case walk (path @ [name]) n acc of
        (acc', Some e) \<Rightarrow> (acc', Some e)
      | (acc', None) \<Rightarrow> walk_entries path rest acc')"

text \<open>
  Each candidate is checked by \<^verbatim>\<open>isValidGitRepo\<close> in a goroutine of its own, which
  appends the repository under the lock; \<^verbatim>\<open>wg.Wait\<close> precedes the test of the walk's
  error. The order of the list depends on the scheduling: the model gives the order of
  the walk. A panic in a goroutine ends the program.
\<close>

fun validate :: "fsnode \<Rightarrow> string list list \<Rightarrow> Repo list go" where
  "validate fs [] = Ret []"
| "validate fs (repoPath # rest) =
     (case isValidGitRepo fs repoPath of
        Panic m \<Rightarrow> Panic m
      | Ret ok \<Rightarrow>
          (case validate fs rest of
             Panic m \<Rightarrow> Panic m
           | Ret repos \<Rightarrow>
               Ret ((if ok then [\<lparr>Path = path_string repoPath, Name = getRepoName repoPath\<rparr>] else [])
                    @ repos)))"

definition Discover :: "fsnode \<Rightarrow> string list \<Rightarrow> (string + Repo list) go" where
  "Discover fs workspacePath =
     (case walk workspacePath (lookup fs workspacePath) [] of
        (candidates, err) \<Rightarrow>
          (case validate fs candidates of
             Panic m \<Rightarrow> Panic m
           | Ret repos \<Rightarrow>
               (case err of
                  Some e \<Rightarrow> Ret (Inl (''workspace discovery failed: '' @ e))
                | None \<Rightarrow> Ret (Inr repos))))"


section \<open>The execution coordinator (package processor, and the loops of the commands)\<close>

text \<open>
  \<^verbatim>\<open>processConcurrently\<close> (and the same loop in \<^verbatim>\<open>runPush\<close> and \<^verbatim>\<open>runPull\<close>) as an
  interleaving of atomic steps. The main goroutine runs the loop (\<open>M_loop i\<close>: about to
  do \<^verbatim>\<open>wg.Add(1)\<close> and \<^verbatim>\<open>go\<close> for the repository of index \<open>i\<close>), then \<^verbatim>\<open>wg.Wait()\<close>
  (\<open>M_wait\<close>), then goes on (\<open>M_returned\<close>). The goroutine of a repository is at one of:
  \<^item> \<open>U_new\<close>: not started;
  \<^item> \<open>U_acquire\<close>: at the send \<^verbatim>\<open>semaphore <- struct{}{}\<close>;
  \<^item> \<open>U_handler\<close>: inside \<^verbatim>\<open>handler.ProcessRepo\<close>;
  \<^item> \<open>U_lock e\<close>: the handler returned \<open>e\<close>; at the test of the report and \<^verbatim>\<open>mu.Lock()\<close>;
  \<^item> \<open>U_append e\<close>: holds the lock, at \<^verbatim>\<open>AddEntry\<close>;
  \<^item> \<open>U_unlock\<close>: at \<^verbatim>\<open>mu.Unlock()\<close>;
  \<^item> \<open>U_release\<close>, \<open>U_wgdone\<close>: at the deferred receive \<^verbatim>\<open><-semaphore\<close> and the
    deferred \<^verbatim>\<open>wg.Done()\<close>;
  \<^item> \<open>U_done\<close>: finished;
  \<^item> \<open>U_prelease\<close>, \<open>U_pwgdone\<close>: the handler panicked and the deferred calls run while
    the panic unwinds the goroutine;
  \<^item> \<open>U_fatal\<close>: the panic reached the top of the goroutine: the Go runtime prints it and
    exits the process.
  The function has no \<^verbatim>\<open>recover\<close>. What the handler does for a repository is a
  parameter: it returns an entry or panics. \<open>collect\<close> is the test
  \<^verbatim>\<open>handler.RequiresReport() && p.report != nil\<close> of \<^verbatim>\<open>processConcurrently\<close>; the
  loops of \<^verbatim>\<open>runPush\<close> and \<^verbatim>\<open>runPull\<close> always append (\<open>collect = True\<close>).
  \<^verbatim>\<open>make(chan struct{}, K)\<close> panics for a negative \<open>K\<close>; a send on the channel
  proceeds while it holds fewer than \<open>K\<close> elements.
\<close>

datatype 'e handled = Entry 'e | Panics

datatype 'e upc =
    U_new | U_acquire | U_handler | U_lock 'e | U_append 'e | U_unlock
  | U_release | U_wgdone | U_done | U_prelease | U_pwgdone | U_fatal

datatype mpc = M_loop nat | M_wait | M_returned

record ('r, 'e) cstate =
  mainpc :: mpc
  units :: "('r \<times> 'e upc) list"
  sem :: nat
  mu :: bool
  wg :: int
  report :: "'e list"
  crashed :: bool

definition init :: "int \<Rightarrow> 'r list \<Rightarrow> ('r, 'e) cstate" where
  "init K repos =
     \<lparr>mainpc = M_loop 0, units = map (\<lambda>r. (r, U_new)) repos, sem = 0, mu = False, wg = 0,
      report = [], crashed = (K < 0)\<rparr>"

datatype actor = Main | Unit nat

definition set_pc :: "nat \<Rightarrow> 'r \<Rightarrow> 'e upc \<Rightarrow> ('r, 'e) cstate \<Rightarrow> ('r, 'e) cstate" where
  "set_pc i r pc s = s\<lparr>units := (units s)[i := (r, pc)]\<rparr>"

text \<open>\<^verbatim>\<open>wg.Done()\<close> panics when the counter becomes negative.\<close>

definition wg_done :: "('r, 'e) cstate \<Rightarrow> ('r, 'e) cstate" where
  "wg_done s = (if wg s - 1 < 0 then s\<lparr>crashed := True\<rparr> else s\<lparr>wg := wg s - 1\<rparr>)"

definition main_step :: "('r, 'e) cstate \<Rightarrow> ('r, 'e) cstate option" where
  "main_step s =
     (case mainpc s of
        M_loop i \<Rightarrow>
          (if i < length (units s)
           then Some ((set_pc i (fst (units s ! i)) U_acquire s)\<lparr>mainpc := M_loop (Suc i), wg := wg s + 1\<rparr>)
           else Some (s\<lparr>mainpc := M_wait\<rparr>))
      | M_wait \<Rightarrow> (if wg s = 0 then Some (s\<lparr>mainpc := M_returned\<rparr>) else None)
      | M_returned \<Rightarrow> None)"

definition unit_step ::
  "int \<Rightarrow> bool \<Rightarrow> ('r \<Rightarrow> 'e handled) \<Rightarrow> nat \<Rightarrow> ('r, 'e) cstate \<Rightarrow> ('r, 'e) cstate option" where
  "unit_step K collect handler i s =
     (if length (units s) \<le> i then None
      else (case units s ! i of
              (r, pc) \<Rightarrow>
                (case pc of
                   U_new \<Rightarrow> None
                 | U_acquire \<Rightarrow>
                     (if int (sem s) < K then Some ((set_pc i r U_handler s)\<lparr>sem := Suc (sem s)\<rparr>)
                      else None)
                 | U_handler \<Rightarrow>
                     (case handler r of
                        Entry e \<Rightarrow> Some (set_pc i r (U_lock e) s)
                      | Panics \<Rightarrow> Some (set_pc i r U_prelease s))
                 | U_lock e \<Rightarrow>
                     (if \<not> collect then Some (set_pc i r U_release s)
                      else if mu s then None
                      else Some ((set_pc i r (U_append e) s)\<lparr>mu := True\<rparr>))
                 | U_append e \<Rightarrow> Some ((set_pc i r U_unlock s)\<lparr>report := report s @ [e]\<rparr>)
                 | U_unlock \<Rightarrow> Some ((set_pc i r U_release s)\<lparr>mu := False\<rparr>)
                 | U_release \<Rightarrow>
                     (if sem s = 0 then None
                      else Some ((set_pc i r U_wgdone s)\<lparr>sem := sem s - 1\<rparr>))
                 | U_wgdone \<Rightarrow> Some (wg_done (set_pc i r U_done s))
                 | U_done \<Rightarrow> None
                 | U_prelease \<Rightarrow>
                     (if sem s = 0 then None
                      else Some ((set_pc i r U_pwgdone s)\<lparr>sem := sem s - 1\<rparr>))
                 | U_pwgdone \<Rightarrow> Some (wg_done (set_pc i r U_fatal s))
                 | U_fatal \<Rightarrow> Some (s\<lparr>crashed := True\<rparr>))))"

text \<open>One step of the program: nothing runs once the process has exited.\<close>

definition step ::
  "int \<Rightarrow> bool \<Rightarrow> ('r \<Rightarrow> 'e handled) \<Rightarrow> actor \<Rightarrow> ('r, 'e) cstate \<Rightarrow> ('r, 'e) cstate option" where
  "step K collect handler a s =
     (if crashed s then None
      else (case a of Main \<Rightarrow> main_step s | Unit i \<Rightarrow> unit_step K collect handler i s))"

text \<open>The run of a schedule (\<open>None\<close> when one of its actors cannot move at its turn).\<close>

fun run_schedule ::
  "int \<Rightarrow> bool \<Rightarrow> ('r \<Rightarrow> 'e handled) \<Rightarrow> actor list \<Rightarrow> ('r, 'e) cstate \<Rightarrow> ('r, 'e) cstate option" where
  "run_schedule K collect handler [] s = Some s"
| "run_schedule K collect handler (a # as) s =
     (case step K collect handler a s of
        None \<Rightarrow> None
      | Some s' \<Rightarrow> run_schedule K collect handler as s')"

inductive reachable ::
  "int \<Rightarrow> bool \<Rightarrow> ('r \<Rightarrow> 'e handled) \<Rightarrow> 'r list \<Rightarrow> ('r, 'e) cstate \<Rightarrow> bool"
  for K :: int and collect :: bool and handler :: "'r \<Rightarrow> 'e handled" and repos :: "'r list" where
  reach_init: "reachable K collect handler repos (init K repos)"
| reach_step: "reachable K collect handler repos s \<Longrightarrow> step K collect handler a s = Some s'
               \<Longrightarrow> reachable K collect handler repos s'"

definition executing :: "('r, 'e) cstate \<Rightarrow> nat" where
  "executing s = length (filter (\<lambda>u. snd u = U_handler) (units s))"

definition handler_entries :: "('r \<Rightarrow> 'e handled) \<Rightarrow> 'r list \<Rightarrow> 'e multiset" where
  "handler_entries handler repos =
     sum_list (map (\<lambda>r. case handler r of Entry e \<Rightarrow> {#e#} | Panics \<Rightarrow> {#}) repos)"


section \<open>Concrete inputs\<close>

text \<open>
  A scripted machine for the concrete runs below: the world counts the processes
  started; every \<^verbatim>\<open>git\<close> command succeeds and prints what the script gives for its
  arguments; the in-progress test exits with status 1 (no rebase or merge under way);
  the operator declines every prompt; the generation collaborator reports an error.
\<close>

definition scripted :: "(string list \<Rightarrow> string) \<Rightarrow> nat sys" where
  "scripted script =
     \<lparr>exec = (\<lambda>w c. case c of
                      GitCmd dir args \<Rightarrow> (Suc w, script args, None)
                    | ShInProgress dir \<Rightarrow> (Suc w, [], Some ''exit status 1'')
                    | ShRepoSize dir \<Rightarrow> (Suc w, ''1.0M'' @ [LF], None)),
      clock = (\<lambda>w layout. layout),
      confirm = (\<lambda>w question. False),
      commit_message = (\<lambda>w input. ([], Some ''no provider''))\<rparr>"

definition start :: "nat st" where
  "start = \<lparr>world = 0, trace = [], stdout = []\<rparr>"

definition default_config :: config where
  "default_config =
     \<lparr>autoAdd = False, pushConcurrency = 6, aiCommit = False, aiReview = False,
      hostName = ''laptop'', checkpointMessage = [], checkpointFeature = [],
      checkpointCrossRepo = False\<rparr>"

section \<open>Dry-run mode\<close>





text \<open>What \<^verbatim>\<open>git status --porcelain\<close> prints for a repository in a world.\<close>

definition status_porcelain :: "'w sys \<Rightarrow> string \<Rightarrow> 'w \<Rightarrow> string" where
  "status_porcelain X repoPath w = fst (snd (exec X w (GitCmd repoPath [''status'', ''--porcelain''])))"

text \<open>
  A repository whose remote has two WIP branches: what \<^verbatim>\<open>git for-each-ref\<close> prints
  for them (the older commit under the name that sorts last), and \<open>main\<close> as the
  current branch. Every other command prints nothing.
\<close>

definition two_wip_refs :: string where
  "two_wip_refs =
     ''2024-01-02 10:00:00 +0000 refs/remotes/origin/wip/laptop/zz-old'' @ [LF]
     @ ''2024-01-03 10:00:00 +0000 refs/remotes/origin/wip/laptop/aa-new'' @ [LF]"

definition wip_script :: "string list \<Rightarrow> string" where
  "wip_script args =
     (if args = [''rev-parse'', ''--abbrev-ref'', ''HEAD''] then ''main'' @ [LF]
      else if args = [''for-each-ref'', ''--format=%(committerdate:iso8601) %(refname)'',
                      ''refs/remotes/origin/wip/'']
      then two_wip_refs
      else [])"

text \<open>A clean repository on \<open>main\<close>: every query but the branch name prints nothing.\<close>

definition clean_script :: "string list \<Rightarrow> string" where
  "clean_script args =
     (if args = [''rev-parse'', ''--abbrev-ref'', ''HEAD''] then ''main'' @ [LF] else [])"

text \<open>A repository on \<open>main\<close> with one untracked file, \<open>node_modules/x.js\<close>.\<close>

definition junk_script :: "string list \<Rightarrow> string" where
  "junk_script args =
     (if args = [''rev-parse'', ''--abbrev-ref'', ''HEAD''] then ''main'' @ [LF]
      else if args = [''ls-files'', ''--others'', ''--exclude-standard'']
      then ''node_modules/x.js'' @ [LF]
      else if args = [''status'', ''--porcelain''] then ''?? node_modules/'' @ [LF]
      else [])"

definition app_repo :: Repo where
  "app_repo = \<lparr>Path = ''/ws/app'', Name = ''app''\<rparr>"

text \<open>
  A workspace with an ordinary repository \<open>app\<close> and a linked working copy \<open>lib\<close>
  whose \<open>.git\<close> is a file.
\<close>

definition worktree_fs :: fsnode where
  "worktree_fs =
     Dir [(''ws'',
           Dir [(''app'', Dir [(''.git'', Dir [(''HEAD'', File ''ref: refs/heads/main'')]),
                               (''main.go'', File ''package main'')]),
                (''lib'', Dir [(''.git'', File ''gitdir: ../app/.git/worktrees/lib''),
                               (''lib.go'', File ''package lib'')])])]"

section \<open>Properties of the executor\<close>



section \<open>Validity of a \<open>.git\<close> entry\<close>

lemma prefix_take_iff: "prefix p t \<longleftrightarrow> take (length p) t = p"
  by (metis append_eq_conv_conj prefix_def)

lemma padded_take8:
  assumes "8 \<le> length t + k"
  shows "take 8 (t @ replicate k (CHR 0x00)) = ''gitdir: '' \<longleftrightarrow> prefix ''gitdir: '' t"
proof (cases "8 \<le> length t")
  case True
  have "prefix ''gitdir: '' t \<longleftrightarrow> take (length ''gitdir: '') t = ''gitdir: ''"
    by (rule prefix_take_iff)
  also have "length ''gitdir: '' = 8"
    by simp
  finally show ?thesis using True by simp
next
  case False
  then have short: "length t < 8" by simp
  have no_prefix: "\<not> prefix ''gitdir: '' t"
    using short by (auto dest: prefix_length_le)
  have "(take 8 (t @ replicate k (CHR 0x00))) ! (length t) = CHR 0x00"
    using short assms by (simp add: nth_append)
  moreover have "\<forall>j<8. ''gitdir: '' ! j \<noteq> CHR 0x00"
    by (simp add: less_Suc_eq numeral_eq_Suc)
  ultimately have "take 8 (t @ replicate k (CHR 0x00)) \<noteq> ''gitdir: ''"
    using short by metis
  then show ?thesis using no_prefix by simp
qed

text \<open>
  C10. \<^verbatim>\<open>isValidGitRepo\<close> returns a boolean for every state of the \<open>.git\<close> entry and
  never panics: true for a directory and for a readable file whose content begins with
  \<open>gitdir: \<close>, false for a missing entry, an unreadable file and every other file. A
  non-empty file shorter than 8 bytes is among the latter: the slice \<^verbatim>\<open>content[:8]\<close> is
  within the capacity of the buffer \<^verbatim>\<open>os.ReadFile\<close> returns (at least 512 bytes), and
  the bytes after the content are zero, so the comparison fails without a panic.
\<close>

theorem isValidGitRepo_total:
  "isValidGitRepo fs path =
     Ret (case lookup fs (path @ [''.git'']) of
            Dir entries \<Rightarrow> True
          | File content \<Rightarrow> prefix ''gitdir: '' content
          | _ \<Rightarrow> False)"
proof (cases "lookup fs (path @ [''.git''])")
  case (File bytes)
  have cap: "8 \<le> length bytes + (max 512 (length bytes + 1) - length bytes)" by simp
  show ?thesis
    using padded_take8 [OF cap] File
    by (auto simp add: isValidGitRepo_def os_ReadFile_def slice_to_def slice_string_def Let_def)
qed (simp_all add: isValidGitRepo_def)

theorem isValidGitRepo_total_witness:
  "isValidGitRepo (Dir [(''.git'', File ''git'')]) [] = Ret False
   \<and> isValidGitRepo (Dir [(''.git'', File ''gitdir: ../.git/worktrees/a'')]) [] = Ret True
   \<and> isValidGitRepo (Dir [(''.git'', Dir [])]) [] = Ret True
   \<and> isValidGitRepo (Dir [(''.git'', Unreadable)]) [] = Ret False
   \<and> isValidGitRepo (Dir []) [] = Ret False"
  using isValidGitRepo_total [of "Dir [(''.git'', File ''git'')]" "[]"]
        isValidGitRepo_total [of "Dir [(''.git'', File ''gitdir: ../.git/worktrees/a'')]" "[]"]
        isValidGitRepo_total [of "Dir [(''.git'', Dir [])]" "[]"]
        isValidGitRepo_total [of "Dir [(''.git'', Unreadable)]" "[]"]
        isValidGitRepo_total [of "Dir []" "[]"]
  by simp

section \<open>Facts about the executor\<close>

lemma getnum_rest: "getnum s f = Some (n, r) \<Longrightarrow> set r \<subseteq> set s"
  by (auto simp add: getnum_def split: list.splits if_splits)

lemma skip_lit_rest: "skip_lit c v = Some r \<Longrightarrow> set r \<subseteq> set v"
  by (auto simp add: skip_lit_def split: list.splits if_splits)

lemma skip_space_no_space: "CHR '' '' \<notin> set v \<Longrightarrow> skip_space v = Some r \<Longrightarrow> r = []"
  by (auto simp add: skip_space_def split: list.splits if_splits)

lemma parse_clock_empty: "parse_clock [] = None"
  by (simp add: parse_clock_def getnum_def)

lemma time_Parse_needs_space:
  assumes "CHR '' '' \<notin> set v"
  shows "time_Parse v = None"
proof (cases "skip_lit (CHR ''-'') (drop 4 v)")
  case None
  then show ?thesis by (simp add: time_Parse_def Let_def)
next
  case (Some v1)
  note a = this
  show ?thesis
  proof (cases "getnum v1 True")
    case None
    then show ?thesis using a by (simp add: time_Parse_def Let_def)
  next
    case (Some mv)
    obtain month v2 where mv: "mv = (month, v2)" by (cases mv)
    note b = Some [unfolded mv]
    show ?thesis
    proof (cases "skip_lit (CHR ''-'') v2")
      case None
      then show ?thesis using a b by (simp add: time_Parse_def Let_def)
    next
      case (Some v3)
      note c = this
      show ?thesis
      proof (cases "getnum v3 True")
        case None
        then show ?thesis using a b c by (simp add: time_Parse_def Let_def)
      next
        case (Some dv)
        obtain day v4 where dv: "dv = (day, v4)" by (cases dv)
        note d = Some [unfolded dv]
        have "set v4 \<subseteq> set v"
          using a b c d
          by (meson getnum_rest skip_lit_rest set_drop_subset subset_trans)
        then have nosp: "CHR '' '' \<notin> set v4" using assms by auto
        show ?thesis
        proof (cases "skip_space v4")
          case None
          then show ?thesis using a b c d by (simp add: time_Parse_def Let_def)
        next
          case (Some v5)
          then have "v5 = []" using nosp skip_space_no_space by blast
          then show ?thesis
            using a b c d Some by (simp add: time_Parse_def Let_def parse_clock_empty)
        qed
      qed
    qed
  qed
qed

lemma SplitN2_first_no_sep:
  "strings_SplitN2 line sep = [p0, p1] \<Longrightarrow> sep \<notin> set p0"
  by (auto simp add: strings_SplitN2_def split: if_splits dest: set_takeWhileD)

lemma latest_loop_step:
  "fst (latest_loop (line # rest) ([], t)) = fst (latest_loop rest ([], t))"
proof (cases "\<exists>p0 p1. strings_SplitN2 line (CHR '' '') = [p0, p1]")
  case True
  then obtain p0 p1 where sp: "strings_SplitN2 line (CHR '' '') = [p0, p1]" by blast
  then have "time_Parse p0 = None"
    by (intro time_Parse_needs_space SplitN2_first_no_sep)
  then show ?thesis using sp by simp
next
  case False
  then show ?thesis
    by (simp split: list.splits)
qed

lemma latest_loop_none: "fst (latest_loop lines ([], t)) = []"
  by (induction lines) (simp_all only: latest_loop_step, simp)

lemma trim_empty: "strings_TrimSpace [] = []"
  by (simp add: strings_TrimSpace_def)

lemma split_refs:
  "strings_Split (strings_TrimSpace two_wip_refs) LF
     = [''2024-01-02 10:00:00 +0000 refs/remotes/origin/wip/laptop/zz-old'',
        ''2024-01-03 10:00:00 +0000 refs/remotes/origin/wip/laptop/aa-new'']"
  by code_simp

lemma collect_stats_keeps:
  "Branch (fst (collect_stats X ctx p st s)) = Branch st
   \<and> Dirty (fst (collect_stats X ctx p st s)) = Dirty st
   \<and> Untracked (fst (collect_stats X ctx p st s)) = Untracked st"
  by (simp add: collect_stats_def Let_def split: prod.splits)

lemma Status_no_error: "snd (fst (Status X ctx p s)) = None"
  by (simp add: Status_def Let_def hasOrigin_def isInProgress_def getAheadBehind_def
           split: prod.splits option.splits list.splits)


lemma run_scripted_git:
  "run (scripted f) (GitCmd d args) s
     = ((f args, None), s\<lparr>world := Suc (world s), trace := trace s @ [GitCmd d args]\<rparr>)"
  by (simp add: run_def scripted_def)

lemma run_scripted_inprogress:
  "run (scripted f) (ShInProgress d) s
     = (([], Some ''exit status 1''), s\<lparr>world := Suc (world s), trace := trace s @ [ShInProgress d]\<rparr>)"
  by (simp add: run_def scripted_def)

lemma Preconditions_scripted: "fst (Preconditions (scripted f) ctx p s) = (True, [])"
  by (simp add: Preconditions_def hasOrigin_def isInProgress_def runGit_def
        run_scripted_git run_scripted_inprogress)

lemma Fetch_scripted: "fst (Fetch (scripted f) ctx p s) = None"
  by (simp add: Fetch_def runGit_def run_scripted_git)

lemma latest_fails_general: "snd (fst (LatestRemoteWIP X ctx p s)) \<noteq> None"
proof -
  obtain out err s' where r:
    "runGitOutput X ctx p [''for-each-ref'', ''--format=%(committerdate:iso8601) %(refname)'',
        ''refs/remotes/origin/wip/''] s = ((out, err), s')"
    by (metis prod.exhaust)
  show ?thesis
  proof (cases err)
    case (Some e)
    then show ?thesis using r by (simp add: LatestRemoteWIP_def)
  next
    case None
    show ?thesis
    proof (cases "strings_Split (strings_TrimSpace out) LF")
      case Nil
      then show ?thesis using r None by (simp add: LatestRemoteWIP_def)
    next
      case (Cons l0 ls)
      obtain latest latestTime where
        ll: "latest_loop (l0 # ls) ([], zero_time) = (latest, latestTime)"
        by (metis prod.exhaust)
      have "latest = []"
        using latest_loop_none [of "l0 # ls" zero_time] ll by simp
      then show ?thesis
        using r None Cons ll
        by (simp add: LatestRemoteWIP_def del: latest_loop.simps)
    qed
  qed
qed

lemma pull_no_wip:
  "Outcome (fst (processRepoPull (scripted f) ctx repo s)) = ''no-wip''"
proof -
  let ?X = "scripted f"
  obtain s1 where pre: "Preconditions ?X ctx (Path repo) s = ((True, []), s1)"
    using Preconditions_scripted [of f ctx "Path repo" s] by (metis prod.collapse)
  obtain status s2 where st: "Status ?X ctx (Path repo) s1 = ((status, None), s2)"
    using Status_no_error [of ?X ctx "Path repo" s1] by (metis prod.collapse)
  obtain s3 where fe: "Fetch ?X ctx (Path repo) s2 = (None, s3)"
    using Fetch_scripted [of f ctx "Path repo" s2] by (metis prod.collapse)
  obtain ref e s4 where la: "LatestRemoteWIP ?X ctx (Path repo) s3 = ((ref, Some e), s4)"
    using latest_fails_general [of ?X ctx "Path repo" s3] by (metis not_Some_eq prod.collapse)
  show ?thesis
    by (simp add: processRepoPull_def Let_def pre st fe la AddWarning_def)
qed

lemma trim_main:
  "strings_TrimSpace [CHR ''m'', CHR ''a'', CHR ''i'', CHR ''n'', CHR 0x0A] = ''main''"
  by (simp add: strings_TrimSpace_def Let_def LF_def ascii_space_def)

lemma parse_dates:
  "time_Parse ''2024-01-02 10:00:00 +0000'' = Some \<lparr>unix_sec = 1704189600, nsec = 0\<rparr>
   \<and> time_Parse ''2024-01-03 10:00:00 +0000'' = Some \<lparr>unix_sec = 1704276000, nsec = 0\<rparr>"
  by (simp add: time_Parse_def Let_def is_digit_def digit_val_def skip_lit_def getnum_def
        skip_space_def parse_clock_def parse_fraction_def parse_zone_def daysIn_def isLeap_def
        days_from_civil_def)

lemma Status_clean:
  "Branch (fst (fst (Status (scripted clean_script) ctx p s))) = ''main''
   \<and> Dirty (fst (fst (Status (scripted clean_script) ctx p s))) = 1
   \<and> Untracked (fst (fst (Status (scripted clean_script) ctx p s))) = 0"
  by (simp add: Status_def Let_def getCurrentBranch_def hasOrigin_def isInProgress_def
        getDirtyCount_def getUntrackedFiles_def getAheadBehind_def runGit_def runGitOutput_def
        run_scripted_git run_scripted_inprogress clean_script_def trim_empty
        strings_Fields_def new_status_def case_prod_beta collect_stats_keeps
        trim_main LF_def)

lemma trim_refs:
  "strings_TrimSpace two_wip_refs
     = ''2024-01-02 10:00:00 +0000 refs/remotes/origin/wip/laptop/zz-old'' @ [CHR 0x0A]
       @ ''2024-01-03 10:00:00 +0000 refs/remotes/origin/wip/laptop/aa-new''"
  by code_simp

lemma trim_refs_again:
  "strings_TrimSpace (''2024-01-02 10:00:00 +0000 refs/remotes/origin/wip/laptop/zz-old'' @ [CHR 0x0A]
       @ ''2024-01-03 10:00:00 +0000 refs/remotes/origin/wip/laptop/aa-new'')
     = ''2024-01-02 10:00:00 +0000 refs/remotes/origin/wip/laptop/zz-old'' @ [CHR 0x0A]
       @ ''2024-01-03 10:00:00 +0000 refs/remotes/origin/wip/laptop/aa-new''"
  by code_simp

lemma split_refs_twice:
  "strings_Split (strings_TrimSpace (strings_TrimSpace two_wip_refs)) LF
     = [''2024-01-02 10:00:00 +0000 refs/remotes/origin/wip/laptop/zz-old'',
        ''2024-01-03 10:00:00 +0000 refs/remotes/origin/wip/laptop/aa-new'']"
  by code_simp

lemma latest_concrete:
  "fst (LatestRemoteWIP (scripted wip_script) None ''/ws/app'' start)
     = ([], Some ''no valid WIP branches found'')"
proof -
  obtain latest latestTime where
    ll: "latest_loop [''2024-01-02 10:00:00 +0000 refs/remotes/origin/wip/laptop/zz-old'',
                      ''2024-01-03 10:00:00 +0000 refs/remotes/origin/wip/laptop/aa-new'']
           ([], zero_time) = (latest, latestTime)"
    by (metis prod.exhaust)
  have "latest = []"
    using latest_loop_none [of _ zero_time] ll by (metis fst_conv)
  then show ?thesis
    using ll
    by (simp add: LatestRemoteWIP_def runGitOutput_def run_scripted_git wip_script_def
          split_refs_twice del: latest_loop.simps)
qed

section \<open>Pull: the latest remote WIP branch\<close>

text \<open>
  C4 (the code departs from the claim). The remote has two WIP refs; both timestamps are
  well-formed and the later commit is \<open>wip/laptop/aa-new\<close>. \<^verbatim>\<open>LatestRemoteWIP\<close> cuts
  each line at its first space, which is the space inside the timestamp, so it hands
  \<^verbatim>\<open>time.Parse\<close> the date alone; the parse fails, every line is skipped, and the
  function reports that no valid WIP branch was found. Pull ends with \<open>no-wip\<close> for a
  repository that has WIP branches.
\<close>

theorem latest_remote_wip_selects_nothing:
  "time_Parse ''2024-01-02 10:00:00 +0000'' = Some \<lparr>unix_sec = 1704189600, nsec = 0\<rparr>
   \<and> time_Parse ''2024-01-03 10:00:00 +0000'' = Some \<lparr>unix_sec = 1704276000, nsec = 0\<rparr>
   \<and> fst (LatestRemoteWIP (scripted wip_script) None ''/ws/app'' start)
       = ([], Some ''no valid WIP branches found'')
   \<and> Outcome (fst (processRepoPull (scripted wip_script) None app_repo start)) = ''no-wip''"
  using parse_dates latest_concrete pull_no_wip [of wip_script None app_repo start]
  by simp

section \<open>Push on a clean repository\<close>

text \<open>
  C3 (the code departs from the claim). In a clean repository \<^verbatim>\<open>git status --porcelain\<close>
  and \<^verbatim>\<open>git ls-files --others\<close> print nothing, yet \<^verbatim>\<open>getDirtyCount\<close> counts one
  dirty file (\<^verbatim>\<open>strings.Split\<close> of the empty string has one element). Push therefore
  takes the staging decision, and with the default flags (no \<^verbatim>\<open>--auto-add\<close>,
  concurrency 6) it ends with \<open>skipped\<close>: no WIP branch is created.
\<close>

theorem push_on_clean_repository_is_skipped:
  "status_porcelain (scripted clean_script) ''/ws/app'' 0 = []
   \<and> fst (getUntrackedFiles (scripted clean_script) None ''/ws/app'' start) = ([], None)
   \<and> fst (getDirtyCount (scripted clean_script) None ''/ws/app'' start) = (1, None)
   \<and> fst (processRepoPush (scripted clean_script) default_config None app_repo
            ''wip/laptop/20240102-150405'' start)
       = \<lparr>Repo = ''app'', Outcome = ''skipped'', Details = ''main (wip=wip/laptop/20240102-150405)'',
          Warnings = [''changes present but auto-add not enabled''], Errors = []\<rparr>"
proof -
  have porcelain: "status_porcelain (scripted clean_script) ''/ws/app'' 0 = []"
    by (simp add: status_porcelain_def scripted_def clean_script_def)
  have untracked: "fst (getUntrackedFiles (scripted clean_script) None ''/ws/app'' start) = ([], None)"
    by (simp add: getUntrackedFiles_def runGitOutput_def run_scripted_git clean_script_def trim_empty)
  have dirty: "fst (getDirtyCount (scripted clean_script) None ''/ws/app'' start) = (1, None)"
    by (simp add: getDirtyCount_def runGitOutput_def run_scripted_git clean_script_def trim_empty)
  have push: "fst (processRepoPush (scripted clean_script) default_config None app_repo
            ''wip/laptop/20240102-150405'' start)
       = \<lparr>Repo = ''app'', Outcome = ''skipped'', Details = ''main (wip=wip/laptop/20240102-150405)'',
          Warnings = [''changes present but auto-add not enabled''], Errors = []\<rparr>"
  proof -
    let ?X = "scripted clean_script"
    obtain s1 where pre: "Preconditions ?X None ''/ws/app'' start = ((True, []), s1)"
      using Preconditions_scripted [of clean_script None "''/ws/app''" start] by (metis prod.collapse)
    obtain s2 where fe: "Fetch ?X None ''/ws/app'' s1 = (None, s2)"
      using Fetch_scripted [of clean_script None "''/ws/app''" s1] by (metis prod.collapse)
    obtain status s3 where st: "Status ?X None ''/ws/app'' s2 = ((status, None), s3)"
      using Status_no_error [of ?X None "''/ws/app''" s2] by (metis prod.collapse)
    have fields: "Branch status = ''main''" "Dirty status = 1" "Untracked status = 0"
      using Status_clean [of None "''/ws/app''" s2] st by simp_all
    have junk: "fst (HasJunkFiles ?X None ''/ws/app'' s3) = (False, [], None)"
      by (simp add: HasJunkFiles_def getUntrackedFiles_def runGitOutput_def run_scripted_git
            clean_script_def trim_empty)
    obtain s4 where hj: "HasJunkFiles ?X None ''/ws/app'' s3 = ((False, [], None), s4)"
      using junk by (metis prod.collapse)
    have stage: "fst (push_stage ?X default_config None app_repo
                   \<lparr>Repo = ''app'', Outcome = [], Details = ''main (wip=wip/laptop/20240102-150405)'',
                      Warnings = [], Errors = []\<rparr> s3)
          = Some \<lparr>Repo = ''app'', Outcome = ''skipped'', Details = ''main (wip=wip/laptop/20240102-150405)'',
               Warnings = [''changes present but auto-add not enabled''], Errors = []\<rparr>"
      by (simp add: push_stage_def app_repo_def hj default_config_def AddWarning_def)
    obtain s5 where ps: "push_stage ?X default_config None app_repo
                   \<lparr>Repo = ''app'', Outcome = [], Details = ''main (wip=wip/laptop/20240102-150405)'',
                      Warnings = [], Errors = []\<rparr> s3
          = (Some \<lparr>Repo = ''app'', Outcome = ''skipped'', Details = ''main (wip=wip/laptop/20240102-150405)'',
               Warnings = [''changes present but auto-add not enabled''], Errors = []\<rparr>, s5)"
      using stage by (metis prod.collapse)
    show ?thesis
        using ps
        by (simp add: processRepoPush_def Let_def app_repo_def pre fe st fields CreatePushEntry_def)
  qed
  show ?thesis
    using porcelain untracked dirty push by simp
qed

section \<open>Discovery of linked working copies\<close>

text \<open>
  C6 (the code departs from the claim). \<open>lib\<close> is the top of a working copy whose \<open>.git\<close>
  is a file beginning with \<open>gitdir: \<close>, and \<^verbatim>\<open>isValidGitRepo\<close> accepts it; but the
  callback of \<^verbatim>\<open>Discover\<close> returns at \<^verbatim>\<open>!info.IsDir()\<close> before it compares the name
  with \<open>.git\<close>, so that file is never a candidate and \<open>lib\<close> is not returned. The
  directory \<open>.git\<close> of \<open>app\<close> is found, recorded and not entered.
\<close>

theorem discover_misses_gitdir_file:
  "isValidGitRepo worktree_fs [''ws'', ''lib''] = Ret True
   \<and> Discover worktree_fs [''ws''] = Ret (Inr [\<lparr>Path = ''/ws/app'', Name = ''app''\<rparr>])"
  by code_simp

section \<open>Pull: the tracking branch\<close>

text \<open>
  C9 (the code departs from the claim). \<^verbatim>\<open>createTrackingBranch\<close> starts at most one
  process, \<^verbatim>\<open>git switch -C <localBranch>\<close> (none under dry-run), and leaves the world
  as that command leaves it: the command \<^verbatim>\<open>git branch --set-upstream-to=...\<close> is
  only formatted and logged, never run, so no upstream is configured.
\<close>

theorem createTrackingBranch_sets_no_upstream:
  "trace (snd (createTrackingBranch X ctx repoPath localBranch remoteBranch s))
     = (if IsDryRun ctx then trace s
        else trace s @ [GitCmd repoPath [''switch'', ''-C'', localBranch]])
   \<and> world (snd (createTrackingBranch X ctx repoPath localBranch remoteBranch s))
     = (if IsDryRun ctx then world s
        else fst (exec X (world s) (GitCmd repoPath [''switch'', ''-C'', localBranch])))"
  by (simp add: createTrackingBranch_def SwitchCreate_def runGit_def run_def printf_def
           split: prod.splits option.splits)

end
